theory Spec2Isabelle
  imports Main "HOL-Library.Word"
begin

section \<open>Shared data model\<close>

text \<open>
  Both scripts (\<^verbatim>\<open>scripts/extract_emap.py\<close> and \<^verbatim>\<open>scripts/patch_det10g.py\<close>) load an
  ONNX model with \<^verbatim>\<open>onnx.load\<close> and walk \<^verbatim>\<open>model.graph.initializer\<close> or
  \<^verbatim>\<open>model.graph.node\<close>. The protobuf messages are records; repeated fields are lists,
  in document order.

  Names are byte strings (UTF-8). The only string operations of the scripts compare with
  ASCII literals, lower-case, search for an ASCII substring and replace an ASCII
  substring; on UTF-8 bytes these agree with Python's operations on code points, since no
  non-ASCII code point lower-cases to one of the letters e, m, a, p.

  A tensor's elements have some numeric source dtype \<open>'v\<close>; \<open>tensor_vals\<close> is the flat,
  row-major list of elements that \<^verbatim>\<open>onnx.numpy_helper.to_array\<close> reads. What the
  scripts print is not modelled.
\<close>

type_synonym byte = "8 word"
type_synonym path = string

datatype error =
    InputNotFound          \<comment> \<open>\<^verbatim>\<open>sys.exit(1)\<close> after "Input file not found", or a missing file in \<^verbatim>\<open>onnx.load\<close>\<close>
  | ModelLoadError         \<comment> \<open>\<^verbatim>\<open>onnx.load\<close> cannot parse the file\<close>
  | TensorNotFoundError    \<comment> \<open>\<^verbatim>\<open>raise ValueError("EMAP initializer not found in model")\<close>\<close>
  | SerializationError     \<comment> \<open>\<^verbatim>\<open>onnx.save\<close> cannot encode the model\<close>
  | NetworkError           \<comment> \<open>\<^verbatim>\<open>requests.get\<close> or \<^verbatim>\<open>raise_for_status\<close> fails\<close>
  | ConversionError        \<comment> \<open>\<^verbatim>\<open>onnx.numpy_helper.to_array\<close> raises: the stored data does not fit the dims\<close>

record 'v tensor_proto =
  tensor_name :: string
  tensor_dims :: "int list"
  tensor_vals :: "'v list"

record attribute_proto =
  attr_name :: string
  attr_i :: int
  attr_ints :: "int list"
  attr_s :: string

record node_proto =
  node_name :: string
  op_type :: string
  node_input :: "string list"
  node_output :: "string list"
  attribute :: "attribute_proto list"

record 'v graph_proto =
  node :: "node_proto list"
  initializer :: "'v tensor_proto list"

record 'v model_proto =
  ir_version :: int
  graph :: "'v graph_proto"

text \<open>
  The file system is a map from paths to file contents. \<open>onnx_load\<close> is \<^verbatim>\<open>onnx.load(path)\<close>:
  the parser of the format is a parameter, \<open>None\<close> when the bytes are no model.
\<close>

definition onnx_load :: "('b \<Rightarrow> 'v model_proto option) \<Rightarrow> (path \<rightharpoonup> 'b) \<Rightarrow> path \<Rightarrow> error + 'v model_proto" where
  "onnx_load parse fs model_path =
     (case fs model_path of
        None \<Rightarrow> Inl InputNotFound
      | Some b \<Rightarrow> (case parse b of None \<Rightarrow> Inl ModelLoadError | Some model \<Rightarrow> Inr model))"

text \<open>
  \<^verbatim>\<open>download_model(url, output_path)\<close>: the HTTP client is a parameter, \<open>None\<close> when the
  request fails; on success the response body becomes the file at \<open>output_path\<close>.
\<close>

definition download_model :: "(string \<Rightarrow> 'b option) \<Rightarrow> string \<Rightarrow> path \<Rightarrow> (path \<rightharpoonup> 'b) \<Rightarrow> error + (path \<rightharpoonup> 'b)" where
  "download_model fetch url output_path fs =
     (case fetch url of None \<Rightarrow> Inl NetworkError | Some b \<Rightarrow> Inr (fs(output_path \<mapsto> b)))"

section \<open>Python string operations\<close>

definition lower_char :: "char \<Rightarrow> char" where
  "lower_char c =
     (let n = (of_char c :: nat) in if 65 \<le> n \<and> n \<le> 90 then char_of (n + 32) else c)"

definition lower :: "string \<Rightarrow> string" where
  "lower s = map lower_char s"

text \<open>\<^verbatim>\<open>sub in s\<close>: \<open>sub\<close> occurs in \<open>s\<close> as a contiguous substring.\<close>

fun str_in :: "string \<Rightarrow> string \<Rightarrow> bool" where
  "str_in sub [] = (sub = [])"
| "str_in sub (c # cs) = (take (length sub) (c # cs) = sub \<or> str_in sub cs)"

text \<open>
  \<^verbatim>\<open>s.replace(old, new)\<close>: every occurrence of \<open>old\<close>, left to right and without overlap;
  an empty \<open>old\<close> matches before every character and at the end.
\<close>

fun str_replace :: "string \<Rightarrow> string \<Rightarrow> string \<Rightarrow> string" where
  "str_replace old new [] = (if old = [] then new else [])"
| "str_replace old new (c # cs) =
     (if old = [] then new @ c # str_replace old new cs
      else if take (length old) (c # cs) = old
        then new @ str_replace old new (drop (length old - 1) cs)
      else c # str_replace old new cs)"

section \<open>The matrix extractor: \<^verbatim>\<open>scripts/extract_emap.py\<close>\<close>

record 'v ndarray =
  nd_shape :: "int list"
  nd_data :: "'v list"

text \<open>
  \<^verbatim>\<open>onnx.numpy_helper.to_array\<close> reshapes the stored elements to the tensor's dims and
  raises when they do not fit. \<open>fits_dims\<close> is the case in which it returns: every dim is
  a size (not negative) and their product is the number of stored elements. In Python the
  exception is a \<^verbatim>\<open>ValueError\<close>, as is the one of line 74; the two are told apart here by
  where they are raised. A tensor with a negative dim is given the conversion error; what
  the library does with one is not settled by the source, and no theorem below rests on
  that case.
\<close>

definition fits_dims :: "'v tensor_proto \<Rightarrow> bool" where
  "fits_dims t \<longleftrightarrow>
     (\<forall>d\<in>set (tensor_dims t). 0 \<le> d) \<and> int (length (tensor_vals t)) = prod_list (tensor_dims t)"

definition to_array :: "'v tensor_proto \<Rightarrow> error + 'v ndarray" where
  "to_array t =
     (if fits_dims t then Inr \<lparr>nd_shape = tensor_dims t, nd_data = tensor_vals t\<rparr>
      else Inl ConversionError)"

definition emap_names :: "string list" where
  "emap_names = [''emap'', ''Emap'', ''EMAP'', ''e_map'', ''embedding_map'']"

text \<open>Line 52: \<^verbatim>\<open>initializer.name in emap_names or 'emap' in initializer.name.lower()\<close>.\<close>

definition name_match :: "'v tensor_proto \<Rightarrow> bool" where
  "name_match ini \<longleftrightarrow>
     tensor_name ini \<in> set emap_names \<or> str_in ''emap'' (lower (tensor_name ini))"

text \<open>Lines 59-60: \<^verbatim>\<open>len(shape) == 2 and shape[0] == 512 and shape[1] == 512\<close>.\<close>

definition shape_match :: "'v tensor_proto \<Rightarrow> bool" where
  "shape_match ini \<longleftrightarrow>
     (let shape = tensor_dims ini in length shape = 2 \<and> shape ! 0 = 512 \<and> shape ! 1 = 512)"

text \<open>
  Lines 50-74, the loop over \<^verbatim>\<open>model.graph.initializer\<close>: one pass; each initializer is
  tested by name, then by shape, and the first that passes either test is converted and
  returned; a conversion that raises ends the function with that error. When the loop
  ends the function raises.
\<close>

fun find_emap :: "'v tensor_proto list \<Rightarrow> error + 'v ndarray" where
  "find_emap [] = Inl TensorNotFoundError"
| "find_emap (ini # rest) =
     (if name_match ini then to_array ini
      else if shape_match ini then to_array ini
      else find_emap rest)"

definition extract_emap :: "('b \<Rightarrow> 'v model_proto option) \<Rightarrow> (path \<rightharpoonup> 'b) \<Rightarrow> path \<Rightarrow> error + 'v ndarray" where
  "extract_emap parse fs model_path =
     (case onnx_load parse fs model_path of
        Inl e \<Rightarrow> Inl e
      | Inr model \<Rightarrow> find_emap (initializer (graph model)))"

text \<open>
  \<^verbatim>\<open>emap.astype(np.float32)\<close> converts every element; the conversion of one element to
  its IEEE-754 single-precision bit pattern is the parameter \<open>cast\<close>. \<^verbatim>\<open>tobytes()\<close> lays
  the elements out in row-major order, four bytes each, in the byte order of the machine:
  least significant byte first, as on the little-endian machines the script runs on.
\<close>

definition astype :: "('v \<Rightarrow> 'w) \<Rightarrow> 'v ndarray \<Rightarrow> 'w ndarray" where
  "astype conv a = \<lparr>nd_shape = nd_shape a, nd_data = map conv (nd_data a)\<rparr>"

definition le_bytes :: "32 word \<Rightarrow> byte list" where
  "le_bytes w = [ucast w, ucast (drop_bit 8 w), ucast (drop_bit 16 w), ucast (drop_bit 24 w)]"

definition tobytes :: "32 word ndarray \<Rightarrow> byte list" where
  "tobytes a = concat (map le_bytes (nd_data a))"

definition save_binary :: "('v \<Rightarrow> 32 word) \<Rightarrow> 'v ndarray \<Rightarrow> path \<Rightarrow> (path \<rightharpoonup> byte list) \<Rightarrow> (path \<rightharpoonup> byte list)" where
  "save_binary cast emap output_path fs =
     (let emap_f32 = astype cast emap in fs(output_path \<mapsto> tobytes emap_f32))"

text \<open>Lines 119-128 of \<^verbatim>\<open>main\<close>: the paths chosen from \<^verbatim>\<open>sys.argv\<close>, and whether the
  branch that may download was taken.\<close>

definition extract_args :: "string list \<Rightarrow> path \<times> path \<times> bool" where
  "extract_args argv =
     (if length argv \<ge> 3 then (argv ! 1, argv ! 2, False)
      else if length argv = 2 then (argv ! 1, ''emap.bin'', False)
      else (''inswapper_128.onnx'', ''emap.bin'', True))"

definition extract_MODEL_URL :: string where
  "extract_MODEL_URL = ''https://huggingface.co/ezioruan/inswapper_128.onnx/resolve/main/inswapper_128.onnx''"

definition extract_main ::
  "(string \<Rightarrow> byte list option) \<Rightarrow> (byte list \<Rightarrow> 'v model_proto option) \<Rightarrow> ('v \<Rightarrow> 32 word) \<Rightarrow>
   string list \<Rightarrow> (path \<rightharpoonup> byte list) \<Rightarrow> error + (path \<rightharpoonup> byte list)" where
  "extract_main fetch parse cast argv fs =
     (case extract_args argv of (input_path, output_path, may_download) \<Rightarrow>
        (case (if may_download \<and> fs input_path = None
               then download_model fetch extract_MODEL_URL input_path fs else Inr fs) of
           Inl e \<Rightarrow> Inl e
         | Inr fs1 \<Rightarrow>
             if fs1 input_path = None then Inl InputNotFound
             else (case extract_emap parse fs1 input_path of
                     Inl e \<Rightarrow> Inl e
                   | Inr emap \<Rightarrow> Inr (save_binary cast emap output_path fs1))))"

section \<open>The attribute patcher: \<^verbatim>\<open>scripts/patch_det10g.py\<close>\<close>

text \<open>
  Lines 39-44, the loop over \<^verbatim>\<open>enumerate(node.attribute)\<close>: the index of the first
  attribute named \<^verbatim>\<open>ceil_mode\<close>, at which the loop deletes and breaks; \<open>None\<close> when the
  loop runs to its end.
\<close>

fun find_ceil_mode :: "nat \<Rightarrow> attribute_proto list \<Rightarrow> nat option" where
  "find_ceil_mode i [] = None"
| "find_ceil_mode i (attr # rest) =
     (if attr_name attr = ''ceil_mode'' then Some i else find_ceil_mode (Suc i) rest)"

text \<open>\<^verbatim>\<open>del xs[i]\<close> for an index in range.\<close>

definition del_at :: "nat \<Rightarrow> 'a list \<Rightarrow> 'a list" where
  "del_at i xs = take i xs @ drop (Suc i) xs"

text \<open>One iteration of the loop over the nodes: the node after it, and what it adds to
  \<^verbatim>\<open>patch_count\<close>.\<close>

definition patch_node :: "node_proto \<Rightarrow> node_proto \<times> nat" where
  "patch_node n =
     (if op_type n = ''AveragePool'' then
        (case find_ceil_mode 0 (attribute n) of
           Some i \<Rightarrow> (n\<lparr>attribute := del_at i (attribute n)\<rparr>, 1)
         | None \<Rightarrow> (n, 0))
      else (n, 0))"

fun patch_nodes :: "node_proto list \<Rightarrow> nat \<Rightarrow> node_proto list \<times> nat" where
  "patch_nodes [] patch_count = ([], patch_count)"
| "patch_nodes (n # ns) patch_count =
     (case patch_node n of (n', k) \<Rightarrow>
        (case patch_nodes ns (patch_count + k) of (ns', c) \<Rightarrow> (n' # ns', c)))"

text \<open>Lines 34-44 on the loaded model: the model in memory after the loop, and the count.\<close>

definition patch_model :: "'v model_proto \<Rightarrow> 'v model_proto \<times> nat" where
  "patch_model model =
     (case patch_nodes (node (graph model)) 0 of
        (ns', patch_count) \<Rightarrow> (model\<lparr>graph := (graph model)\<lparr>node := ns'\<rparr>\<rparr>, patch_count))"

text \<open>
  \<^verbatim>\<open>patch_ceil_mode(model_path, output_path)\<close>: the returned count and the file system
  after the call. \<^verbatim>\<open>onnx.save\<close> runs only when \<^verbatim>\<open>patch_count > 0\<close>; the serializer of
  the format is a parameter, \<open>None\<close> when the model cannot be encoded.
\<close>

definition patch_ceil_mode ::
  "('b \<Rightarrow> 'v model_proto option) \<Rightarrow> ('v model_proto \<Rightarrow> 'b option) \<Rightarrow>
   (path \<rightharpoonup> 'b) \<Rightarrow> path \<Rightarrow> path \<Rightarrow> error + (nat \<times> (path \<rightharpoonup> 'b))" where
  "patch_ceil_mode parse serialize fs model_path output_path =
     (case onnx_load parse fs model_path of
        Inl e \<Rightarrow> Inl e
      | Inr model \<Rightarrow>
          (case patch_model model of (model', patch_count) \<Rightarrow>
             if patch_count > 0 then
               (case serialize model' of
                  None \<Rightarrow> Inl SerializationError
                | Some b \<Rightarrow> Inr (patch_count, fs(output_path \<mapsto> b)))
             else Inr (patch_count, fs)))"

text \<open>Lines 85-94 of \<^verbatim>\<open>main\<close>.\<close>

definition patch_args :: "string list \<Rightarrow> path \<times> path \<times> bool" where
  "patch_args argv =
     (if length argv \<ge> 3 then (argv ! 1, argv ! 2, False)
      else if length argv = 2 then
        (let input_path = argv ! 1 in (input_path, str_replace ''.onnx'' ''_patched.onnx'' input_path, False))
      else (''det_10g.onnx'', ''det_10g_patched.onnx'', True))"

definition patch_MODEL_URL :: string where
  "patch_MODEL_URL = ''https://huggingface.co/fofr/comfyui/resolve/main/insightface/models/buffalo_l/det_10g.onnx''"

definition patch_main ::
  "(string \<Rightarrow> 'b option) \<Rightarrow> ('b \<Rightarrow> 'v model_proto option) \<Rightarrow> ('v model_proto \<Rightarrow> 'b option) \<Rightarrow>
   string list \<Rightarrow> (path \<rightharpoonup> 'b) \<Rightarrow> error + (path \<rightharpoonup> 'b)" where
  "patch_main fetch parse serialize argv fs =
     (case patch_args argv of (input_path, output_path, may_download) \<Rightarrow>
        (case (if may_download \<and> fs input_path = None
               then download_model fetch patch_MODEL_URL input_path fs else Inr fs) of
           Inl e \<Rightarrow> Inl e
         | Inr fs1 \<Rightarrow>
             if fs1 input_path = None then Inl InputNotFound
             else (case patch_ceil_mode parse serialize fs1 input_path output_path of
                     Inl e \<Rightarrow> Inl e
                   | Inr (patch_count, fs2) \<Rightarrow> Inr fs2)))"

section \<open>Example models\<close>

text \<open>Small models on which the theorems below are run.\<close>

definition ceil_mode_attr :: "int \<Rightarrow> attribute_proto" where
  "ceil_mode_attr v = \<lparr>attr_name = ''ceil_mode'', attr_i = v, attr_ints = [], attr_s = ''''\<rparr>"

definition kernel_shape_attr :: attribute_proto where
  "kernel_shape_attr = \<lparr>attr_name = ''kernel_shape'', attr_i = 0, attr_ints = [2, 2], attr_s = ''''\<rparr>"

definition example_node :: "string \<Rightarrow> string \<Rightarrow> attribute_proto list \<Rightarrow> node_proto" where
  "example_node nm op attrs =
     \<lparr>node_name = nm, op_type = op, node_input = [''x''], node_output = [''y''], attribute = attrs\<rparr>"

definition example_model :: "node_proto list \<Rightarrow> unit model_proto" where
  "example_model ns = \<lparr>ir_version = 8, graph = \<lparr>node = ns, initializer = []\<rparr>\<rparr>"

section \<open>Loading\<close>

lemmas example_defs = ceil_mode_attr_def kernel_shape_attr_def example_node_def example_model_def

lemma onnx_load_Inr:
  "fs model_path = Some b \<Longrightarrow> parse b = Some model \<Longrightarrow> onnx_load parse fs model_path = Inr model"
  by (simp add: onnx_load_def)

lemma onnx_load_InrD:
  "onnx_load parse fs model_path = Inr model \<Longrightarrow> \<exists>b. fs model_path = Some b \<and> parse b = Some model"
  by (auto simp: onnx_load_def split: option.splits)

section \<open>Properties of the extractor\<close>

lemma extract_emap_loaded:
  "onnx_load parse fs model_path = Inr model \<Longrightarrow>
   extract_emap parse fs model_path = find_emap (initializer (graph model))"
  by (simp add: extract_emap_def)

lemma to_array_fits:
  "fits_dims t \<Longrightarrow> to_array t = Inr \<lparr>nd_shape = tensor_dims t, nd_data = tensor_vals t\<rparr>"
  by (simp add: to_array_def)

lemma to_array_not_not_found: "to_array t \<noteq> Inl TensorNotFoundError"
  by (simp add: to_array_def)

lemma find_emap_skip:
  "\<forall>x\<in>set pre. \<not> name_match x \<and> \<not> shape_match x \<Longrightarrow> find_emap (pre @ rest) = find_emap rest"
  by (induction pre) simp_all

lemma find_emap_first:
  assumes "\<forall>x\<in>set pre. \<not> name_match x \<and> \<not> shape_match x"
    and "name_match t \<or> shape_match t"
  shows "find_emap (pre @ t # post) = to_array t"
  using assms by (auto simp: find_emap_skip)

lemma find_emap_not_found_iff:
  "find_emap inits = Inl TensorNotFoundError \<longleftrightarrow>
     (\<forall>ini\<in>set inits. \<not> name_match ini \<and> \<not> shape_match ini)"
  by (induction inits) (auto simp: to_array_not_not_found)

lemma find_emap_found:
  assumes "\<exists>ini\<in>set inits. name_match ini \<or> shape_match ini"
  shows "\<exists>pre t post. inits = pre @ t # post \<and>
           (\<forall>x\<in>set pre. \<not> name_match x \<and> \<not> shape_match x) \<and>
           (name_match t \<or> shape_match t) \<and> find_emap inits = to_array t"
proof -
  from split_list_first_prop [OF assms] obtain pre t post where
    d: "inits = pre @ t # post" "name_match t \<or> shape_match t"
    "\<forall>x\<in>set pre. \<not> (name_match x \<or> shape_match x)" by blast
  from d(3) have nb: "\<forall>x\<in>set pre. \<not> name_match x \<and> \<not> shape_match x" by simp
  from find_emap_first [OF nb d(2), of post] d(1) have "find_emap inits = to_array t" by simp
  with d(1,2) nb show ?thesis by blast
qed

text \<open>
  Claim C3 says that whenever some initializer satisfies a rule, extraction returns a
  tensor and does not raise. The initializer that is selected is converted, and the
  conversion raises when the stored data does not fit the dims: with a tensor named
  \<open>emap\<close> of dims [2, 2] holding three elements, extraction ends with the conversion
  error.
\<close>

theorem extract_emap_converts_counterexample:
  "name_match \<lparr>tensor_name = ''emap'', tensor_dims = [2, 2], tensor_vals = [1, 2, 3 :: 32 word]\<rparr>
   \<and> extract_emap
        (\<lambda>b. Some \<lparr>ir_version = 8, graph = \<lparr>node = [], initializer =
           [\<lparr>tensor_name = ''emap'', tensor_dims = [2, 2], tensor_vals = [1, 2, 3 :: 32 word]\<rparr>]\<rparr>\<rparr>)
        [''m.onnx'' \<mapsto> ()] ''m.onnx''
      = Inl ConversionError"
  by (simp add: extract_emap_def onnx_load_def name_match_def emap_names_def to_array_def
        fits_dims_def)

text \<open>
  Claim C3, amended. For every loaded model, \<open>extract_emap\<close> fails with the not-found error
  exactly when no initializer matches the name rule and none has shape [512, 512]. When
  some initializer satisfies a rule, the result is the conversion of the first one in
  document order that does; it is that tensor's array, and nothing is raised, when the
  tensor's stored data fits its dims.
\<close>

theorem extract_emap_not_found_iff:
  assumes "onnx_load parse fs model_path = Inr model"
  shows "(extract_emap parse fs model_path = Inl TensorNotFoundError \<longleftrightarrow>
            (\<forall>ini\<in>set (initializer (graph model)). \<not> name_match ini \<and> \<not> shape_match ini)) \<and>
         ((\<exists>ini\<in>set (initializer (graph model)). name_match ini \<or> shape_match ini) \<longrightarrow>
            (\<exists>pre t post. initializer (graph model) = pre @ t # post \<and>
               (\<forall>x\<in>set pre. \<not> name_match x \<and> \<not> shape_match x) \<and>
               (name_match t \<or> shape_match t) \<and>
               extract_emap parse fs model_path = to_array t)) \<and>
         (initializer (graph model) = pre @ t # post \<and>
          (\<forall>x\<in>set pre. \<not> name_match x \<and> \<not> shape_match x) \<and>
          (name_match t \<or> shape_match t) \<and> fits_dims t \<longrightarrow>
            extract_emap parse fs model_path =
              Inr \<lparr>nd_shape = tensor_dims t, nd_data = tensor_vals t\<rparr>)"
proof -
  have e: "extract_emap parse fs model_path = find_emap (initializer (graph model))"
    using assms by (rule extract_emap_loaded)
  have 1: "extract_emap parse fs model_path = Inl TensorNotFoundError \<longleftrightarrow>
            (\<forall>ini\<in>set (initializer (graph model)). \<not> name_match ini \<and> \<not> shape_match ini)"
    unfolding e by (rule find_emap_not_found_iff)
  have 2: "\<exists>pre t post. initializer (graph model) = pre @ t # post \<and>
               (\<forall>x\<in>set pre. \<not> name_match x \<and> \<not> shape_match x) \<and>
               (name_match t \<or> shape_match t) \<and>
               extract_emap parse fs model_path = to_array t"
    if "\<exists>ini\<in>set (initializer (graph model)). name_match ini \<or> shape_match ini"
    unfolding e using that by (rule find_emap_found)
  have 3: "extract_emap parse fs model_path =
              Inr \<lparr>nd_shape = tensor_dims t, nd_data = tensor_vals t\<rparr>"
    if "initializer (graph model) = pre @ t # post"
      "\<forall>x\<in>set pre. \<not> name_match x \<and> \<not> shape_match x"
      "name_match t \<or> shape_match t" "fits_dims t"
    using find_emap_first [OF that(2,3), of post] that(1) to_array_fits [OF that(4)] e by simp
  from 1 2 3 show ?thesis by blast
qed

theorem extract_emap_not_found_iff_witness:
  "extract_emap
     (\<lambda>b. Some \<lparr>ir_version = 8, graph = \<lparr>node = [], initializer =
        [\<lparr>tensor_name = ''conv1.weight'', tensor_dims = [2, 2], tensor_vals = [1, 2, 3, 4 :: 32 word]\<rparr>]\<rparr>\<rparr>)
     [''m.onnx'' \<mapsto> ()] ''m.onnx'' = Inl TensorNotFoundError
   \<and>
   extract_emap
     (\<lambda>b. Some \<lparr>ir_version = 8, graph = \<lparr>node = [], initializer =
        [\<lparr>tensor_name = ''conv1.weight'', tensor_dims = [2, 2], tensor_vals = [1, 2, 3, 4 :: 32 word]\<rparr>,
         \<lparr>tensor_name = ''My_EMAP'', tensor_dims = [2], tensor_vals = [5, 6]\<rparr>]\<rparr>\<rparr>)
     [''m.onnx'' \<mapsto> ()] ''m.onnx'' = Inr \<lparr>nd_shape = [2], nd_data = [5, 6]\<rparr>"
proof -
  let ?t1 = "\<lparr>tensor_name = ''conv1.weight'', tensor_dims = [2, 2], tensor_vals = [1, 2, 3, 4 :: 32 word]\<rparr>"
  let ?t2 = "\<lparr>tensor_name = ''My_EMAP'', tensor_dims = [2], tensor_vals = [5, 6 :: 32 word]\<rparr>"
  let ?m1 = "\<lparr>ir_version = 8, graph = \<lparr>node = [], initializer = [?t1]\<rparr>\<rparr>"
  let ?m2 = "\<lparr>ir_version = 8, graph = \<lparr>node = [], initializer = [?t1, ?t2]\<rparr>\<rparr>"
  have n1: "\<not> name_match ?t1" "\<not> shape_match ?t1"
    by (simp_all add: name_match_def shape_match_def emap_names_def lower_def lower_char_def
          char_of_def bit_Suc_0_iff)
  have n2: "name_match ?t2"
    by (simp add: name_match_def emap_names_def lower_def lower_char_def char_of_def bit_Suc_0_iff)
  have f2: "fits_dims ?t2" by (simp add: fits_dims_def)
  have l1: "onnx_load (\<lambda>b. Some ?m1) [''m.onnx'' \<mapsto> ()] ''m.onnx'' = Inr ?m1"
    by (simp add: onnx_load_def)
  have l2: "onnx_load (\<lambda>b. Some ?m2) [''m.onnx'' \<mapsto> ()] ''m.onnx'' = Inr ?m2"
    by (simp add: onnx_load_def)
  from extract_emap_not_found_iff [OF l1] n1
  have a: "extract_emap (\<lambda>b. Some ?m1) [''m.onnx'' \<mapsto> ()] ''m.onnx'' = Inl TensorNotFoundError"
    by simp
  from extract_emap_not_found_iff [OF l2, of "[?t1]" ?t2 "[]"] n1 n2 f2
  have b: "extract_emap (\<lambda>b. Some ?m2) [''m.onnx'' \<mapsto> ()] ''m.onnx''
             = Inr \<lparr>nd_shape = [2], nd_data = [5, 6]\<rparr>"
    by simp
  from a b show ?thesis by simp
qed

lemma shape_match_iff: "shape_match ini \<longleftrightarrow> tensor_dims ini = [512, 512]"
proof
  assume "shape_match ini"
  then have l: "length (tensor_dims ini) = 2" and a: "tensor_dims ini ! 0 = 512" and b: "tensor_dims ini ! 1 = 512"
    by (simp_all add: shape_match_def Let_def)
  from l obtain x y where xy: "tensor_dims ini = [x, y]"
    by (cases "tensor_dims ini"; cases "tl (tensor_dims ini)"; cases "tl (tl (tensor_dims ini))") auto
  with a b show "tensor_dims ini = [512, 512]" by simp
next
  assume "tensor_dims ini = [512, 512]"
  then show "shape_match ini" by (simp add: shape_match_def)
qed

lemma name_match_emap: "tensor_name ini = ''emap'' \<Longrightarrow> name_match ini"
  by (simp add: name_match_def emap_names_def)

lemma tobytes_astype:
  "tobytes (astype cast \<lparr>nd_shape = sh, nd_data = vs\<rparr>) = concat (map (\<lambda>v. le_bytes (cast v)) vs)"
  by (simp add: tobytes_def astype_def comp_def)

lemma length_cast_bytes: "length (concat (map (\<lambda>v. le_bytes (cast v)) vs)) = 4 * length vs"
  by (induction vs) (simp_all add: le_bytes_def)

lemma length_le_bytes: "length (le_bytes w) = 4"
  by (simp add: le_bytes_def)

lemma length_concat_replicate: "length (concat (replicate n xs)) = n * length xs"
  by (induction n) simp_all

lemma extract_main_loaded:
  assumes "extract_args argv = (input_path, output_path, may_download)"
    and "fs input_path = Some b" and "parse b = Some model"
  shows "extract_main fetch parse cast argv fs =
           (case find_emap (initializer (graph model)) of
              Inl e \<Rightarrow> Inl e
            | Inr emap \<Rightarrow> Inr (save_binary cast emap output_path fs))"
  using assms by (simp add: extract_main_def extract_emap_def onnx_load_def)

text \<open>
  Claim C1 says that a name match anywhere in the graph wins over an earlier [512, 512]
  tensor. The loop is a single pass that returns at the first initializer passing either
  test: with \<open>fc.weight\<close> of shape [512, 512] before \<open>emap\<close>, the array of \<open>fc.weight\<close>
  (all zero) is returned, not that of \<open>emap\<close> (all one).
\<close>

theorem extract_emap_name_priority_counterexample:
  "shape_match \<lparr>tensor_name = ''fc.weight'', tensor_dims = [512, 512], tensor_vals = replicate 262144 (0 :: 32 word)\<rparr>
   \<and> \<not> name_match \<lparr>tensor_name = ''fc.weight'', tensor_dims = [512, 512], tensor_vals = replicate 262144 (0 :: 32 word)\<rparr>
   \<and> name_match \<lparr>tensor_name = ''emap'', tensor_dims = [512, 512], tensor_vals = replicate 262144 (1 :: 32 word)\<rparr>
   \<and> extract_emap
        (\<lambda>b. Some \<lparr>ir_version = 8, graph = \<lparr>node = [], initializer =
           [\<lparr>tensor_name = ''fc.weight'', tensor_dims = [512, 512], tensor_vals = replicate 262144 (0 :: 32 word)\<rparr>,
            \<lparr>tensor_name = ''emap'', tensor_dims = [512, 512], tensor_vals = replicate 262144 1\<rparr>]\<rparr>\<rparr>)
        [''m.onnx'' \<mapsto> ()] ''m.onnx''
      = Inr \<lparr>nd_shape = [512, 512], nd_data = replicate 262144 0\<rparr>
   \<and> extract_emap
        (\<lambda>b. Some \<lparr>ir_version = 8, graph = \<lparr>node = [], initializer =
           [\<lparr>tensor_name = ''fc.weight'', tensor_dims = [512, 512], tensor_vals = replicate 262144 (0 :: 32 word)\<rparr>,
            \<lparr>tensor_name = ''emap'', tensor_dims = [512, 512], tensor_vals = replicate 262144 1\<rparr>]\<rparr>\<rparr>)
        [''m.onnx'' \<mapsto> ()] ''m.onnx''
      \<noteq> to_array \<lparr>tensor_name = ''emap'', tensor_dims = [512, 512], tensor_vals = replicate 262144 (1 :: 32 word)\<rparr>"
  by (simp add: extract_emap_def onnx_load_def name_match_def shape_match_def emap_names_def
        lower_def lower_char_def to_array_def fits_dims_def)

text \<open>
  Claim C1, amended. For every loaded model whose initializers hold a tensor \<open>n\<close> matching
  the name rule and, earlier in document order, a tensor \<open>s\<close> of shape [512, 512] that does
  not match the name rule, \<open>extract_emap\<close> selects the first initializer in document order
  that satisfies one of the two rules, which stands at or before \<open>s\<close>, and its result is
  the conversion of that initializer; when no initializer before \<open>s\<close> satisfies a rule, it
  is the conversion of \<open>s\<close>. The name test comes before the shape test only on the same
  initializer, and there is no second pass.
\<close>

theorem extract_emap_first_match:
  assumes "onnx_load parse fs model_path = Inr model"
    and "initializer (graph model) = pre @ s # mid @ n # post"
    and "shape_match s" and "\<not> name_match s" and "name_match n"
  shows "(\<exists>before t after. initializer (graph model) = before @ t # after \<and>
            length before \<le> length pre \<and>
            (\<forall>x\<in>set before. \<not> name_match x \<and> \<not> shape_match x) \<and>
            (name_match t \<or> shape_match t) \<and>
            extract_emap parse fs model_path = to_array t) \<and>
         ((\<forall>x\<in>set pre. \<not> name_match x \<and> \<not> shape_match x) \<longrightarrow>
            extract_emap parse fs model_path = to_array s)"
proof -
  have e: "extract_emap parse fs model_path = find_emap (initializer (graph model))"
    using assms(1) by (rule extract_emap_loaded)
  from assms(3) have "\<exists>x\<in>set (pre @ [s]). name_match x \<or> shape_match x" by simp
  from split_list_first_prop [OF this] obtain before t rest where
    d: "pre @ [s] = before @ t # rest" "name_match t \<or> shape_match t"
    "\<forall>x\<in>set before. \<not> (name_match x \<or> shape_match x)" by blast
  from d(1) have "length (pre @ [s]) = length (before @ t # rest)" by (rule arg_cong)
  then have len: "length before \<le> length pre" by simp
  from d(1) assms(2) have i: "initializer (graph model) = before @ t # (rest @ mid @ n # post)"
    by (metis append.assoc append_Cons append_Nil)
  from d(3) have nb: "\<forall>x\<in>set before. \<not> name_match x \<and> \<not> shape_match x" by simp
  from find_emap_first [OF nb d(2), of "rest @ mid @ n # post"] i e
  have r: "extract_emap parse fs model_path = to_array t" by simp
  from i len nb d(2) r
  have 1: "\<exists>before t after. initializer (graph model) = before @ t # after \<and>
            length before \<le> length pre \<and>
            (\<forall>x\<in>set before. \<not> name_match x \<and> \<not> shape_match x) \<and>
            (name_match t \<or> shape_match t) \<and>
            extract_emap parse fs model_path = to_array t"
    by blast
  have 2: "extract_emap parse fs model_path = to_array s"
    if "\<forall>x\<in>set pre. \<not> name_match x \<and> \<not> shape_match x"
    using find_emap_first [OF that, of s "mid @ n # post"] assms(2,3) e by simp
  from 1 2 show ?thesis by blast
qed

theorem extract_emap_first_match_witness:
  "extract_emap
     (\<lambda>b. Some \<lparr>ir_version = 8, graph = \<lparr>node = [], initializer =
        [\<lparr>tensor_name = ''fc.weight'', tensor_dims = [512, 512], tensor_vals = replicate 262144 (0 :: 32 word)\<rparr>,
         \<lparr>tensor_name = ''bias'', tensor_dims = [2], tensor_vals = [7, 8]\<rparr>,
         \<lparr>tensor_name = ''emap'', tensor_dims = [512, 512], tensor_vals = replicate 262144 1\<rparr>]\<rparr>\<rparr>)
     [''m.onnx'' \<mapsto> ()] ''m.onnx''
   = Inr \<lparr>nd_shape = [512, 512], nd_data = replicate 262144 0\<rparr>"
proof -
  let ?s = "\<lparr>tensor_name = ''fc.weight'', tensor_dims = [512, 512], tensor_vals = replicate 262144 (0 :: 32 word)\<rparr>"
  let ?b = "\<lparr>tensor_name = ''bias'', tensor_dims = [2], tensor_vals = [7, 8 :: 32 word]\<rparr>"
  let ?n = "\<lparr>tensor_name = ''emap'', tensor_dims = [512, 512], tensor_vals = replicate 262144 (1 :: 32 word)\<rparr>"
  let ?m = "\<lparr>ir_version = 8, graph = \<lparr>node = [], initializer = [?s, ?b, ?n]\<rparr>\<rparr>"
  have l: "onnx_load (\<lambda>b. Some ?m) [''m.onnx'' \<mapsto> ()] ''m.onnx'' = Inr ?m"
    by (simp add: onnx_load_def)
  have i: "initializer (graph ?m) = [] @ ?s # [?b] @ ?n # []" by simp
  have s: "shape_match ?s" by (simp add: shape_match_def)
  have ns: "\<not> name_match ?s"
    by (simp add: name_match_def emap_names_def lower_def lower_char_def char_of_def bit_Suc_0_iff)
  have n: "name_match ?n" by (simp add: name_match_def emap_names_def)
  have c: "to_array ?s = Inr \<lparr>nd_shape = [512, 512], nd_data = replicate 262144 0\<rparr>"
    by (simp add: to_array_def fits_dims_def)
  from extract_emap_first_match [OF l i s ns n] c show ?thesis by simp
qed

text \<open>
  Claim C2 says that a graph holding a tensor named \<open>emap\<close> of shape [512, 512] always
  yields that tensor's 1,048,576 bytes. An earlier initializer that passes a test is
  taken instead: with the one-element tensor \<open>emap_scale\<close> before \<open>emap\<close>, the output
  file holds four bytes.
\<close>

theorem extract_main_emap_bytes_counterexample:
  "extract_main (\<lambda>url. None)
     (\<lambda>b. Some \<lparr>ir_version = 8, graph = \<lparr>node = [], initializer =
        [\<lparr>tensor_name = ''emap_scale'', tensor_dims = [1], tensor_vals = [0x3F800000 :: 32 word]\<rparr>,
         \<lparr>tensor_name = ''emap'', tensor_dims = [512, 512], tensor_vals = replicate 262144 0\<rparr>]\<rparr>\<rparr>)
     (\<lambda>w. w)
     [''extract_emap.py'', ''m.onnx'', ''out.bin''] [''m.onnx'' \<mapsto> []]
   = Inr [''m.onnx'' \<mapsto> [], ''out.bin'' \<mapsto> [0, 0, 0x80, 0x3F]]"
proof -
  have "le_bytes 0x3F800000 = [0, 0, 0x80, 0x3F]"
    by (simp add: le_bytes_def)
  then show ?thesis
    by (simp add: extract_main_def extract_args_def extract_emap_def onnx_load_def name_match_def
          emap_names_def lower_def lower_char_def save_binary_def astype_def tobytes_def
          to_array_def fits_dims_def)
qed

text \<open>
  Claim C2, amended. For every run of the extractor whose input file parses to a model in
  which the first initializer passing either test is named exactly \<open>emap\<close> and has shape
  [512, 512] (with the 512 * 512 elements its dims announce), the run ends without error
  and the output file holds exactly the four-byte little-endian encodings of the
  \<open>cast\<close> (float32) images of that tensor's elements, in row-major order: 1,048,576 bytes,
  nothing before and nothing after, whatever the source dtype \<open>'v\<close>.
\<close>

theorem extract_main_emap_bytes:
  assumes "extract_args argv = (input_path, output_path, may_download)"
    and "fs input_path = Some b" and "parse b = Some model"
    and "initializer (graph model) = pre @ t # post"
    and "\<forall>x\<in>set pre. \<not> name_match x \<and> \<not> shape_match x"
    and "tensor_name t = ''emap''" and "tensor_dims t = [512, 512]"
    and "length (tensor_vals t) = 512 * 512"
  shows "extract_main fetch parse cast argv fs =
           Inr (fs(output_path \<mapsto> concat (map (\<lambda>v. le_bytes (cast v)) (tensor_vals t)))) \<and>
         length (concat (map (\<lambda>v. le_bytes (cast v)) (tensor_vals t))) = 1048576"
proof -
  from assms(7,8) have "fits_dims t" by (simp add: fits_dims_def)
  then have "to_array t = Inr \<lparr>nd_shape = tensor_dims t, nd_data = tensor_vals t\<rparr>"
    by (rule to_array_fits)
  then have "find_emap (initializer (graph model)) =
               Inr \<lparr>nd_shape = tensor_dims t, nd_data = tensor_vals t\<rparr>"
    using find_emap_first [OF assms(5), of t post] name_match_emap [OF assms(6)] assms(4) by simp
  then have "extract_main fetch parse cast argv fs =
               Inr (save_binary cast \<lparr>nd_shape = tensor_dims t, nd_data = tensor_vals t\<rparr> output_path fs)"
    using extract_main_loaded [where fs = fs and parse = parse, OF assms(1-3)] by simp
  moreover have "length (concat (map (\<lambda>v. le_bytes (cast v)) (tensor_vals t))) = 1048576"
    using assms(8) by (simp add: length_cast_bytes)
  ultimately show ?thesis
    by (simp add: save_binary_def tobytes_astype)
qed

theorem extract_main_emap_bytes_witness:
  "extract_main (\<lambda>url. None)
     (\<lambda>b. Some \<lparr>ir_version = 8, graph = \<lparr>node = [], initializer =
        [\<lparr>tensor_name = ''conv1.bias'', tensor_dims = [2], tensor_vals = [5, 6 :: 32 word]\<rparr>,
         \<lparr>tensor_name = ''emap'', tensor_dims = [512, 512], tensor_vals = replicate 262144 0x3F800000\<rparr>]\<rparr>\<rparr>)
     (\<lambda>w. w)
     [''extract_emap.py'', ''m.onnx''] [''m.onnx'' \<mapsto> []]
   = Inr [''m.onnx'' \<mapsto> [], ''emap.bin'' \<mapsto> concat (map le_bytes (replicate 262144 0x3F800000))]
   \<and> length (concat (map le_bytes (replicate 262144 0x3F800000))) = 1048576"
proof -
  let ?c = "\<lparr>tensor_name = ''conv1.bias'', tensor_dims = [2], tensor_vals = [5, 6 :: 32 word]\<rparr>"
  let ?t = "\<lparr>tensor_name = ''emap'', tensor_dims = [512, 512], tensor_vals = replicate 262144 (0x3F800000 :: 32 word)\<rparr>"
  let ?m = "\<lparr>ir_version = 8, graph = \<lparr>node = [], initializer = [?c, ?t]\<rparr>\<rparr>"
  have a: "extract_args [''extract_emap.py'', ''m.onnx''] = (''m.onnx'', ''emap.bin'', False)"
    by (simp add: extract_args_def)
  have f: "[''m.onnx'' \<mapsto> ([] :: byte list)] ''m.onnx'' = Some []" by simp
  have p: "(\<lambda>b :: byte list. Some ?m) [] = Some ?m" by simp
  have i: "initializer (graph ?m) = [?c] @ ?t # []" by simp
  have n: "\<forall>x\<in>set [?c]. \<not> name_match x \<and> \<not> shape_match x"
    by (simp add: name_match_def shape_match_def emap_names_def lower_def lower_char_def
          char_of_def bit_Suc_0_iff)
  have nm: "tensor_name ?t = ''emap''" and d: "tensor_dims ?t = [512, 512]"
    and l: "length (tensor_vals ?t) = 512 * 512" by simp_all
  from extract_main_emap_bytes [where fs = "[''m.onnx'' \<mapsto> []]" and parse = "\<lambda>b. Some ?m"
      and fetch = "\<lambda>url. None" and cast = "\<lambda>w. w", OF a f p i n nm d l]
  show ?thesis by simp
qed

text \<open>
  Claim C10 says that a first name match with a shape other than [512, 512] gives a file
  that is not 1,048,576 bytes long. A name-matched tensor of shape [1024, 256] has
  262,144 elements, and the file is 1,048,576 bytes long; and a [512, 512] tensor before
  the first name match (here of shape [2]) is the one extracted, again 1,048,576 bytes.
\<close>

theorem extract_main_name_match_size_counterexample:
  "name_match \<lparr>tensor_name = ''emap'', tensor_dims = [1024, 256], tensor_vals = replicate 262144 (0 :: 32 word)\<rparr>
   \<and> tensor_dims \<lparr>tensor_name = ''emap'', tensor_dims = [1024, 256], tensor_vals = replicate 262144 (0 :: 32 word)\<rparr> \<noteq> [512, 512]
   \<and> extract_main (\<lambda>url. None)
       (\<lambda>b. Some \<lparr>ir_version = 8, graph = \<lparr>node = [], initializer =
          [\<lparr>tensor_name = ''emap'', tensor_dims = [1024, 256], tensor_vals = replicate 262144 (0 :: 32 word)\<rparr>]\<rparr>\<rparr>)
       (\<lambda>w. w)
       [''extract_emap.py'', ''m.onnx'', ''out.bin''] [''m.onnx'' \<mapsto> []]
     = Inr [''m.onnx'' \<mapsto> [], ''out.bin'' \<mapsto> concat (map le_bytes (replicate 262144 0))]
   \<and> length (concat (map le_bytes (replicate 262144 (0 :: 32 word)))) = 1048576
   \<and> extract_main (\<lambda>url. None)
       (\<lambda>b. Some \<lparr>ir_version = 8, graph = \<lparr>node = [], initializer =
          [\<lparr>tensor_name = ''fc.weight'', tensor_dims = [512, 512], tensor_vals = replicate 262144 (0 :: 32 word)\<rparr>,
           \<lparr>tensor_name = ''emap'', tensor_dims = [2], tensor_vals = [1, 2]\<rparr>]\<rparr>\<rparr>)
       (\<lambda>w. w)
       [''extract_emap.py'', ''m.onnx'', ''out.bin''] [''m.onnx'' \<mapsto> []]
     = Inr [''m.onnx'' \<mapsto> [], ''out.bin'' \<mapsto> concat (map le_bytes (replicate 262144 0))]"
  by (simp add: extract_main_def extract_args_def extract_emap_def onnx_load_def name_match_def
        shape_match_def emap_names_def lower_def lower_char_def save_binary_def astype_def
        tobytes_def to_array_def fits_dims_def length_concat_replicate length_le_bytes)

text \<open>
  Claim C10, amended. The name test does not look at the shape: for every run of the
  extractor whose input file parses to a model in which the first initializer passing
  either test passes the name test, has a shape other than [512, 512] and holds the
  elements its dims announce, the run ends without error; the tensor was taken by its
  name, not by its shape; and the file holds 4 * (number of elements) bytes, four times
  the product of the dims, which differs from 1,048,576 exactly when that product is not
  262,144.
\<close>

theorem extract_main_name_match_size:
  assumes "extract_args argv = (input_path, output_path, may_download)"
    and "fs input_path = Some b" and "parse b = Some model"
    and "initializer (graph model) = pre @ t # post"
    and "\<forall>x\<in>set pre. \<not> name_match x \<and> \<not> shape_match x"
    and "name_match t" and "tensor_dims t \<noteq> [512, 512]"
    and "fits_dims t"
  shows "extract_main fetch parse cast argv fs =
           Inr (fs(output_path \<mapsto> concat (map (\<lambda>v. le_bytes (cast v)) (tensor_vals t)))) \<and>
         \<not> shape_match t \<and>
         length (concat (map (\<lambda>v. le_bytes (cast v)) (tensor_vals t))) = 4 * length (tensor_vals t) \<and>
         int (length (concat (map (\<lambda>v. le_bytes (cast v)) (tensor_vals t)))) =
           4 * prod_list (tensor_dims t) \<and>
         (length (concat (map (\<lambda>v. le_bytes (cast v)) (tensor_vals t))) \<noteq> 1048576 \<longleftrightarrow>
            prod_list (tensor_dims t) \<noteq> 262144)"
proof -
  from assms(8) have n: "int (length (tensor_vals t)) = prod_list (tensor_dims t)"
    by (simp add: fits_dims_def)
  have "find_emap (initializer (graph model)) =
          Inr \<lparr>nd_shape = tensor_dims t, nd_data = tensor_vals t\<rparr>"
    using find_emap_first [OF assms(5), of t post] assms(4,6) to_array_fits [OF assms(8)] by simp
  then have "extract_main fetch parse cast argv fs =
               Inr (save_binary cast \<lparr>nd_shape = tensor_dims t, nd_data = tensor_vals t\<rparr> output_path fs)"
    using extract_main_loaded [where fs = fs and parse = parse, OF assms(1-3)] by simp
  then have 1: "extract_main fetch parse cast argv fs =
           Inr (fs(output_path \<mapsto> concat (map (\<lambda>v. le_bytes (cast v)) (tensor_vals t))))"
    by (simp add: save_binary_def tobytes_astype)
  from assms(7) have 2: "\<not> shape_match t" by (simp add: shape_match_iff)
  have 3: "length (concat (map (\<lambda>v. le_bytes (cast v)) (tensor_vals t))) = 4 * length (tensor_vals t)"
    by (rule length_cast_bytes)
  from 3 n have 4: "int (length (concat (map (\<lambda>v. le_bytes (cast v)) (tensor_vals t)))) =
           4 * prod_list (tensor_dims t)" by simp
  from 4 have 5: "length (concat (map (\<lambda>v. le_bytes (cast v)) (tensor_vals t))) \<noteq> 1048576 \<longleftrightarrow>
            prod_list (tensor_dims t) \<noteq> 262144" by linarith
  from 1 2 3 4 5 show ?thesis by blast
qed

theorem extract_main_name_match_size_witness:
  "extract_main (\<lambda>url. None)
     (\<lambda>b. Some \<lparr>ir_version = 8, graph = \<lparr>node = [], initializer =
        [\<lparr>tensor_name = ''conv1.bias'', tensor_dims = [2], tensor_vals = [5, 6 :: 32 word]\<rparr>,
         \<lparr>tensor_name = ''Source_Emap'', tensor_dims = [2, 1], tensor_vals = [0x3F800000, 0x40000000]\<rparr>]\<rparr>\<rparr>)
     (\<lambda>w. w)
     [''extract_emap.py'', ''m.onnx'', ''out.bin''] [''m.onnx'' \<mapsto> []]
   = Inr [''m.onnx'' \<mapsto> [], ''out.bin'' \<mapsto> [0, 0, 0x80, 0x3F, 0, 0, 0, 0x40]]"
proof -
  let ?c = "\<lparr>tensor_name = ''conv1.bias'', tensor_dims = [2], tensor_vals = [5, 6 :: 32 word]\<rparr>"
  let ?t = "\<lparr>tensor_name = ''Source_Emap'', tensor_dims = [2, 1], tensor_vals = [0x3F800000, 0x40000000 :: 32 word]\<rparr>"
  let ?m = "\<lparr>ir_version = 8, graph = \<lparr>node = [], initializer = [?c, ?t]\<rparr>\<rparr>"
  have a: "extract_args [''extract_emap.py'', ''m.onnx'', ''out.bin''] = (''m.onnx'', ''out.bin'', False)"
    by (simp add: extract_args_def)
  have f: "[''m.onnx'' \<mapsto> ([] :: byte list)] ''m.onnx'' = Some []" by simp
  have p: "(\<lambda>b :: byte list. Some ?m) [] = Some ?m" by simp
  have i: "initializer (graph ?m) = [?c] @ ?t # []" by simp
  have n: "\<forall>x\<in>set [?c]. \<not> name_match x \<and> \<not> shape_match x"
    by (simp add: name_match_def shape_match_def emap_names_def lower_def lower_char_def
          char_of_def bit_Suc_0_iff)
  have nm: "name_match ?t"
    by (simp add: name_match_def emap_names_def lower_def lower_char_def char_of_def bit_Suc_0_iff)
  have d: "tensor_dims ?t \<noteq> [512, 512]" by simp
  have ft: "fits_dims ?t" by (simp add: fits_dims_def)
  note extract_main_name_match_size [where fs = "[''m.onnx'' \<mapsto> []]" and parse = "\<lambda>b. Some ?m"
      and fetch = "\<lambda>url. None" and cast = "\<lambda>w. w", OF a f p i n nm d ft]
  moreover
  have "le_bytes 0x3F800000 = [0, 0, 0x80, 0x3F]" "le_bytes 0x40000000 = [0, 0, 0, 0x40]"
    by (simp_all add: le_bytes_def)
  ultimately show ?thesis by simp
qed

section \<open>Properties of the patcher\<close>

lemma find_ceil_mode_None_iff:
  "find_ceil_mode i as = None \<longleftrightarrow> (\<forall>a\<in>set as. attr_name a \<noteq> ''ceil_mode'')"
  by (induction as arbitrary: i) auto

lemma find_ceil_mode_first:
  "\<forall>x\<in>set pre. attr_name x \<noteq> ''ceil_mode'' \<Longrightarrow> attr_name a = ''ceil_mode'' \<Longrightarrow>
   find_ceil_mode i (pre @ a # post) = Some (i + length pre)"
  by (induction pre arbitrary: i) auto

lemma find_ceil_mode_SomeD:
  "find_ceil_mode i as = Some j \<Longrightarrow>
   \<exists>pre a post. as = pre @ a # post \<and> (\<forall>x\<in>set pre. attr_name x \<noteq> ''ceil_mode'') \<and>
     attr_name a = ''ceil_mode'' \<and> j = i + length pre"
proof (induction as arbitrary: i)
  case Nil
  then show ?case by simp
next
  case (Cons x as)
  show ?case
  proof (cases "attr_name x = ''ceil_mode''")
    case True
    with Cons.prems have "j = i" by simp
    with True show ?thesis by (intro exI [of _ "[]"] exI [of _ x] exI [of _ as]) simp
  next
    case False
    with Cons.prems have "find_ceil_mode (Suc i) as = Some j" by simp
    from Cons.IH [OF this] obtain pre a post where
      "as = pre @ a # post" "\<forall>x\<in>set pre. attr_name x \<noteq> ''ceil_mode''"
      "attr_name a = ''ceil_mode''" "j = Suc i + length pre" by blast
    with False show ?thesis
      by (intro exI [of _ "x # pre"] exI [of _ a] exI [of _ post]) simp
  qed
qed

lemma del_at_append: "del_at (length pre) (pre @ a # post) = pre @ post"
  by (simp add: del_at_def)

lemma patch_node_first:
  assumes "op_type n = ''AveragePool''" and "attribute n = pre @ a # post"
    and "\<forall>x\<in>set pre. attr_name x \<noteq> ''ceil_mode''" and "attr_name a = ''ceil_mode''"
  shows "patch_node n = (n\<lparr>attribute := pre @ post\<rparr>, 1)"
  using assms find_ceil_mode_first [OF assms(3,4), of 0 post]
  by (simp add: patch_node_def del_at_append)

lemma patch_node_other: "op_type n \<noteq> ''AveragePool'' \<Longrightarrow> patch_node n = (n, 0)"
  by (simp add: patch_node_def)

lemma patch_node_none:
  "\<forall>a\<in>set (attribute n). attr_name a \<noteq> ''ceil_mode'' \<Longrightarrow> patch_node n = (n, 0)"
  using find_ceil_mode_None_iff [of 0 "attribute n"] by (simp add: patch_node_def)

lemma patch_node_cases:
  "patch_node n = (n, 0) \<and>
     (op_type n \<noteq> ''AveragePool'' \<or> (\<forall>a\<in>set (attribute n). attr_name a \<noteq> ''ceil_mode'')) \<or>
   op_type n = ''AveragePool'' \<and>
     (\<exists>pre a post. attribute n = pre @ a # post \<and> (\<forall>x\<in>set pre. attr_name x \<noteq> ''ceil_mode'') \<and>
        attr_name a = ''ceil_mode'' \<and> patch_node n = (n\<lparr>attribute := pre @ post\<rparr>, 1))"
proof (cases "op_type n = ''AveragePool''")
  case False
  then show ?thesis by (simp add: patch_node_other)
next
  case ap: True
  show ?thesis
  proof (cases "find_ceil_mode 0 (attribute n)")
    case None
    then have "\<forall>a\<in>set (attribute n). attr_name a \<noteq> ''ceil_mode''"
      by (simp add: find_ceil_mode_None_iff)
    then show ?thesis by (simp add: patch_node_none)
  next
    case (Some j)
    from find_ceil_mode_SomeD [OF Some] obtain pre a post where
      d: "attribute n = pre @ a # post" "\<forall>x\<in>set pre. attr_name x \<noteq> ''ceil_mode''"
      "attr_name a = ''ceil_mode''" by blast
    from patch_node_first [OF ap d] d ap show ?thesis by blast
  qed
qed

lemma patch_nodes_eq:
  "patch_nodes ns c =
     (map (\<lambda>n. fst (patch_node n)) ns, c + sum_list (map (\<lambda>n. snd (patch_node n)) ns))"
  by (induction ns arbitrary: c) (simp_all split: prod.splits)

lemma patch_model_eq:
  "patch_model model =
     (model\<lparr>graph := (graph model)\<lparr>node := map (\<lambda>n. fst (patch_node n)) (node (graph model))\<rparr>\<rparr>,
      sum_list (map (\<lambda>n. snd (patch_node n)) (node (graph model))))"
  by (simp add: patch_model_def patch_nodes_eq)

lemma patch_ceil_mode_loaded:
  assumes "onnx_load parse fs model_path = Inr model"
  shows "patch_ceil_mode parse serialize fs model_path output_path =
           (if 0 < snd (patch_model model) then
              (case serialize (fst (patch_model model)) of
                 None \<Rightarrow> Inl SerializationError
               | Some b \<Rightarrow> Inr (snd (patch_model model), fs(output_path \<mapsto> b)))
            else Inr (0, fs))"
  using assms by (cases "patch_model model") (simp add: patch_ceil_mode_def split: option.splits)

lemma del_first_eq_filter:
  assumes "length (filter (\<lambda>a. attr_name a = ''ceil_mode'') (pre @ a # post)) \<le> 1"
    and "\<forall>x\<in>set pre. attr_name x \<noteq> ''ceil_mode''" and "attr_name a = ''ceil_mode''"
  shows "filter (\<lambda>a. attr_name a \<noteq> ''ceil_mode'') (pre @ a # post) = pre @ post"
proof -
  from assms(1,3) have "filter (\<lambda>a. attr_name a = ''ceil_mode'') post = []" by simp
  then have "\<forall>x\<in>set post. attr_name x \<noteq> ''ceil_mode''" by (simp add: filter_empty_conv)
  with assms(2,3) show ?thesis by simp
qed

lemma patch_node_at_most_one:
  assumes "op_type n = ''AveragePool'' \<longrightarrow>
           length (filter (\<lambda>a. attr_name a = ''ceil_mode'') (attribute n)) \<le> 1"
  shows "patch_node n =
           (if op_type n = ''AveragePool''
            then n\<lparr>attribute := filter (\<lambda>a. attr_name a \<noteq> ''ceil_mode'') (attribute n)\<rparr> else n,
            if op_type n = ''AveragePool'' \<and> (\<exists>a\<in>set (attribute n). attr_name a = ''ceil_mode'')
            then 1 else 0)"
proof -
  consider
    (same) "patch_node n = (n, 0)"
      "op_type n \<noteq> ''AveragePool'' \<or> (\<forall>a\<in>set (attribute n). attr_name a \<noteq> ''ceil_mode'')"
  | (del) pre a post where "op_type n = ''AveragePool''" "attribute n = pre @ a # post"
      "\<forall>x\<in>set pre. attr_name x \<noteq> ''ceil_mode''" "attr_name a = ''ceil_mode''"
      "patch_node n = (n\<lparr>attribute := pre @ post\<rparr>, 1)"
    using patch_node_cases [of n] by blast
  then show ?thesis
  proof cases
    case same
    have "filter (\<lambda>a. attr_name a \<noteq> ''ceil_mode'') (attribute n) = attribute n"
      if "\<forall>a\<in>set (attribute n). attr_name a \<noteq> ''ceil_mode''"
      using that by simp
    with same show ?thesis by auto
  next
    case del
    from assms del(1,2)
    have "length (filter (\<lambda>a. attr_name a = ''ceil_mode'') (pre @ a # post)) \<le> 1" by simp
    from del_first_eq_filter [OF this del(3,4)] del show ?thesis by auto
  qed
qed

lemma sum_list_indicator:
  "sum_list (map (\<lambda>x. if P x then 1 else 0) xs) = length (filter P xs)"
  by (induction xs) simp_all

lemma patch_node_length:
  "length (attribute (fst (patch_node n))) + snd (patch_node n) = length (attribute n)"
  using patch_node_cases [of n] by auto

lemma patch_nodes_total:
  "(\<Sum>n\<leftarrow>map (\<lambda>n. fst (patch_node n)) ns. length (attribute n)) +
   (\<Sum>n\<leftarrow>ns. snd (patch_node n)) = (\<Sum>n\<leftarrow>ns. length (attribute n))"
proof (induction ns)
  case Nil
  then show ?case by simp
next
  case (Cons n ns)
  from Cons.IH patch_node_length [of n] show ?case by simp
qed

text \<open>
  Claim C4. For every loaded model in which each \<open>AveragePool\<close> node carries at most one
  attribute named \<open>ceil_mode\<close>, with \<open>N\<close> the number of \<open>AveragePool\<close> nodes that carry one:
  a run of \<open>patch_ceil_mode\<close> that returns, returns \<open>N\<close>; the nodes hold \<open>N\<close> attributes
  fewer in total; the node list is the old one, in order, where each \<open>AveragePool\<close> node has
  lost its \<open>ceil_mode\<close> attribute and nothing else, and every other node is as it was; the
  initializers and the rest of the model are unchanged; and when \<open>N > 0\<close> the output file
  holds the serialization of that model.
\<close>

theorem patch_ceil_mode_counts:
  assumes "onnx_load parse fs model_path = Inr model"
    and "\<forall>n\<in>set (node (graph model)). op_type n = ''AveragePool'' \<longrightarrow>
           length (filter (\<lambda>a. attr_name a = ''ceil_mode'') (attribute n)) \<le> 1"
    and "patch_ceil_mode parse serialize fs model_path output_path = Inr (patch_count, fs')"
  shows "patch_count = snd (patch_model model) \<and>
         patch_count = length (filter (\<lambda>n. op_type n = ''AveragePool'' \<and>
                          (\<exists>a\<in>set (attribute n). attr_name a = ''ceil_mode'')) (node (graph model))) \<and>
         (\<Sum>n\<leftarrow>node (graph (fst (patch_model model))). length (attribute n)) + patch_count =
           (\<Sum>n\<leftarrow>node (graph model). length (attribute n)) \<and>
         node (graph (fst (patch_model model))) =
           map (\<lambda>n. if op_type n = ''AveragePool''
                     then n\<lparr>attribute := filter (\<lambda>a. attr_name a \<noteq> ''ceil_mode'') (attribute n)\<rparr>
                     else n) (node (graph model)) \<and>
         initializer (graph (fst (patch_model model))) = initializer (graph model) \<and>
         fst (patch_model model) = model\<lparr>graph := (graph model)\<lparr>node := node (graph (fst (patch_model model)))\<rparr>\<rparr> \<and>
         (0 < patch_count \<longrightarrow>
            (\<exists>b. serialize (fst (patch_model model)) = Some b \<and> fs' = fs(output_path \<mapsto> b)))"
proof -
  let ?ns = "node (graph model)"
  have c: "patch_count = snd (patch_model model)"
    using assms(3) patch_ceil_mode_loaded [OF assms(1), of serialize output_path]
    by (auto split: if_splits option.splits)
  have w: "\<exists>b. serialize (fst (patch_model model)) = Some b \<and> fs' = fs(output_path \<mapsto> b)"
    if "0 < patch_count"
    using that c assms(3) patch_ceil_mode_loaded [OF assms(1), of serialize output_path]
    by (auto split: if_splits option.splits)
  have pn: "patch_node n =
           (if op_type n = ''AveragePool''
            then n\<lparr>attribute := filter (\<lambda>a. attr_name a \<noteq> ''ceil_mode'') (attribute n)\<rparr> else n,
            if op_type n = ''AveragePool'' \<and> (\<exists>a\<in>set (attribute n). attr_name a = ''ceil_mode'')
            then 1 else 0)" if "n \<in> set ?ns" for n
    using that assms(2) by (intro patch_node_at_most_one) blast
  have cnt: "snd (patch_model model) = length (filter (\<lambda>n. op_type n = ''AveragePool'' \<and>
                          (\<exists>a\<in>set (attribute n). attr_name a = ''ceil_mode'')) ?ns)"
  proof -
    have m: "map (\<lambda>n. snd (patch_node n)) ?ns =
          map (\<lambda>n. if op_type n = ''AveragePool'' \<and> (\<exists>a\<in>set (attribute n). attr_name a = ''ceil_mode'')
                    then 1 else 0) ?ns"
      by (rule map_cong [OF refl]) (simp add: pn)
    have "snd (patch_model model) = sum_list (map (\<lambda>n. snd (patch_node n)) ?ns)"
      by (simp add: patch_model_eq)
    also have "\<dots> = sum_list (map (\<lambda>n. if op_type n = ''AveragePool'' \<and>
                 (\<exists>a\<in>set (attribute n). attr_name a = ''ceil_mode'') then 1 else 0) ?ns)"
      by (simp only: m)
    also have "\<dots> = length (filter (\<lambda>n. op_type n = ''AveragePool'' \<and>
                          (\<exists>a\<in>set (attribute n). attr_name a = ''ceil_mode'')) ?ns)"
      by (rule sum_list_indicator)
    finally show ?thesis .
  qed
  have nodes: "node (graph (fst (patch_model model))) =
           map (\<lambda>n. if op_type n = ''AveragePool''
                     then n\<lparr>attribute := filter (\<lambda>a. attr_name a \<noteq> ''ceil_mode'') (attribute n)\<rparr>
                     else n) ?ns"
  proof -
    have m: "map (\<lambda>n. fst (patch_node n)) ?ns =
          map (\<lambda>n. if op_type n = ''AveragePool''
                     then n\<lparr>attribute := filter (\<lambda>a. attr_name a \<noteq> ''ceil_mode'') (attribute n)\<rparr>
                     else n) ?ns"
      by (rule map_cong [OF refl]) (simp add: pn)
    have "node (graph (fst (patch_model model))) = map (\<lambda>n. fst (patch_node n)) ?ns"
      by (simp add: patch_model_eq)
    with m show ?thesis by (simp only:)
  qed
  have tot: "(\<Sum>n\<leftarrow>node (graph (fst (patch_model model))). length (attribute n)) + snd (patch_model model) =
           (\<Sum>n\<leftarrow>?ns. length (attribute n))"
    using patch_nodes_total [of ?ns] by (simp add: patch_model_eq)
  have ini: "initializer (graph (fst (patch_model model))) = initializer (graph model)"
    by (simp add: patch_model_eq)
  have rest: "fst (patch_model model) = model\<lparr>graph := (graph model)\<lparr>node := node (graph (fst (patch_model model)))\<rparr>\<rparr>"
    by (simp add: patch_model_eq)
  from c w cnt nodes tot ini rest show ?thesis by simp
qed

theorem patch_ceil_mode_counts_witness:
  "patch_ceil_mode Some Some
     [''a.onnx'' \<mapsto> example_model
        [example_node ''pool1'' ''AveragePool'' [kernel_shape_attr, ceil_mode_attr 1],
         example_node ''pad1'' ''MaxPool'' [ceil_mode_attr 1],
         example_node ''pool2'' ''AveragePool'' [kernel_shape_attr]]]
     ''a.onnx'' ''b.onnx''
   = Inr (1,
     [''a.onnx'' \<mapsto> example_model
        [example_node ''pool1'' ''AveragePool'' [kernel_shape_attr, ceil_mode_attr 1],
         example_node ''pad1'' ''MaxPool'' [ceil_mode_attr 1],
         example_node ''pool2'' ''AveragePool'' [kernel_shape_attr]],
      ''b.onnx'' \<mapsto> example_model
        [example_node ''pool1'' ''AveragePool'' [kernel_shape_attr],
         example_node ''pad1'' ''MaxPool'' [ceil_mode_attr 1],
         example_node ''pool2'' ''AveragePool'' [kernel_shape_attr]]])
   \<and> (1 :: nat) = snd (patch_model (example_model
        [example_node ''pool1'' ''AveragePool'' [kernel_shape_attr, ceil_mode_attr 1],
         example_node ''pad1'' ''MaxPool'' [ceil_mode_attr 1],
         example_node ''pool2'' ''AveragePool'' [kernel_shape_attr]]))"
proof -
  let ?m = "example_model
        [example_node ''pool1'' ''AveragePool'' [kernel_shape_attr, ceil_mode_attr 1],
         example_node ''pad1'' ''MaxPool'' [ceil_mode_attr 1],
         example_node ''pool2'' ''AveragePool'' [kernel_shape_attr]]"
  let ?m' = "example_model
        [example_node ''pool1'' ''AveragePool'' [kernel_shape_attr],
         example_node ''pad1'' ''MaxPool'' [ceil_mode_attr 1],
         example_node ''pool2'' ''AveragePool'' [kernel_shape_attr]]"
  have load: "onnx_load Some [''a.onnx'' \<mapsto> ?m] ''a.onnx'' = Inr ?m"
    by (simp add: onnx_load_def)
  have one: "\<forall>n\<in>set (node (graph ?m)). op_type n = ''AveragePool'' \<longrightarrow>
               length (filter (\<lambda>a. attr_name a = ''ceil_mode'') (attribute n)) \<le> 1"
    by (simp add: example_defs)
  have run: "patch_ceil_mode Some Some [''a.onnx'' \<mapsto> ?m] ''a.onnx'' ''b.onnx''
               = Inr (1, [''a.onnx'' \<mapsto> ?m, ''b.onnx'' \<mapsto> ?m'])"
    by (simp add: patch_ceil_mode_def onnx_load_def patch_model_def patch_node_def del_at_def
          example_defs)
  from patch_ceil_mode_counts [where parse = Some and serialize = Some
      and fs = "[''a.onnx'' \<mapsto> ?m]", OF load one run] run
  show ?thesis by simp
qed

text \<open>
  Claim C5. In the model in memory after the loop, the node at a position \<open>i\<close> whose
  operator type is \<open>AveragePool\<close> and whose attributes hold one or more \<open>ceil_mode\<close> has lost
  exactly the first of them in list order (\<open>pre @ a # post\<close> becomes \<open>pre @ post\<close>), all its
  other fields are unchanged, and it adds 1 to the patch count, which is the sum of what
  the nodes add; a node of another operator type is unchanged and adds 0.
\<close>

theorem patch_node_removes_first:
  assumes "patch_model model = (model', patch_count)" and "i < length (node (graph model))"
  shows "length (node (graph model')) = length (node (graph model)) \<and>
         patch_count = (\<Sum>n\<leftarrow>node (graph model). snd (patch_node n)) \<and>
         (op_type (node (graph model) ! i) = ''AveragePool'' \<and>
          attribute (node (graph model) ! i) = pre @ a # post \<and>
          (\<forall>x\<in>set pre. attr_name x \<noteq> ''ceil_mode'') \<and> attr_name a = ''ceil_mode'' \<longrightarrow>
            node (graph model') ! i = (node (graph model) ! i)\<lparr>attribute := pre @ post\<rparr> \<and>
            snd (patch_node (node (graph model) ! i)) = 1) \<and>
         (op_type (node (graph model) ! i) = ''AveragePool'' \<and>
          (\<exists>a\<in>set (attribute (node (graph model) ! i)). attr_name a = ''ceil_mode'') \<longrightarrow>
            (\<exists>pre a post. attribute (node (graph model) ! i) = pre @ a # post \<and>
               (\<forall>x\<in>set pre. attr_name x \<noteq> ''ceil_mode'') \<and> attr_name a = ''ceil_mode'' \<and>
               node (graph model') ! i = (node (graph model) ! i)\<lparr>attribute := pre @ post\<rparr>) \<and>
            snd (patch_node (node (graph model) ! i)) = 1) \<and>
         (op_type (node (graph model) ! i) \<noteq> ''AveragePool'' \<longrightarrow>
            node (graph model') ! i = node (graph model) ! i \<and>
            snd (patch_node (node (graph model) ! i)) = 0)"
proof -
  let ?n = "node (graph model) ! i"
  from assms(1) have m: "node (graph model') = map (\<lambda>n. fst (patch_node n)) (node (graph model))"
    and c: "patch_count = (\<Sum>n\<leftarrow>node (graph model). snd (patch_node n))"
    by (auto simp: patch_model_eq)
  from m assms(2) have i: "node (graph model') ! i = fst (patch_node ?n)" by simp
  from m have l: "length (node (graph model')) = length (node (graph model))" by simp
  have first: "node (graph model') ! i = ?n\<lparr>attribute := pre @ post\<rparr> \<and> snd (patch_node ?n) = 1"
    if "op_type ?n = ''AveragePool''" "attribute ?n = pre @ a # post"
      "\<forall>x\<in>set pre. attr_name x \<noteq> ''ceil_mode''" "attr_name a = ''ceil_mode''"
    for pre a post
    using patch_node_first [OF that] i by simp
  have ex: "(\<exists>pre a post. attribute ?n = pre @ a # post \<and>
               (\<forall>x\<in>set pre. attr_name x \<noteq> ''ceil_mode'') \<and> attr_name a = ''ceil_mode'' \<and>
               node (graph model') ! i = ?n\<lparr>attribute := pre @ post\<rparr>) \<and> snd (patch_node ?n) = 1"
    if ap: "op_type ?n = ''AveragePool''" and has: "\<exists>a\<in>set (attribute ?n). attr_name a = ''ceil_mode''"
  proof -
    from split_list_first_prop [OF has] obtain pre a post where
      d: "attribute ?n = pre @ a # post" "attr_name a = ''ceil_mode''"
      "\<forall>x\<in>set pre. attr_name x \<noteq> ''ceil_mode''" by blast
    from first [OF ap d(1,3,2)] d show ?thesis by blast
  qed
  have other: "node (graph model') ! i = ?n \<and> snd (patch_node ?n) = 0"
    if "op_type ?n \<noteq> ''AveragePool''"
    using patch_node_other [OF that] i by simp
  from l c first ex other show ?thesis by blast
qed

theorem patch_node_removes_first_witness:
  "node (graph (fst (patch_model (example_model
      [example_node ''conv1'' ''Conv'' [ceil_mode_attr 1],
       example_node ''pool1'' ''AveragePool'' [kernel_shape_attr, ceil_mode_attr 1, ceil_mode_attr 0]])))) ! 1
   = example_node ''pool1'' ''AveragePool'' [kernel_shape_attr, ceil_mode_attr 0]
   \<and> node (graph (fst (patch_model (example_model
      [example_node ''conv1'' ''Conv'' [ceil_mode_attr 1],
       example_node ''pool1'' ''AveragePool'' [kernel_shape_attr, ceil_mode_attr 1, ceil_mode_attr 0]])))) ! 0
   = example_node ''conv1'' ''Conv'' [ceil_mode_attr 1]
   \<and> snd (patch_model (example_model
      [example_node ''conv1'' ''Conv'' [ceil_mode_attr 1],
       example_node ''pool1'' ''AveragePool'' [kernel_shape_attr, ceil_mode_attr 1, ceil_mode_attr 0]])) = 1"
proof -
  let ?m = "example_model
      [example_node ''conv1'' ''Conv'' [ceil_mode_attr 1],
       example_node ''pool1'' ''AveragePool'' [kernel_shape_attr, ceil_mode_attr 1, ceil_mode_attr 0]]"
  have p: "patch_model ?m = (fst (patch_model ?m), snd (patch_model ?m))" by simp
  have i0: "0 < length (node (graph ?m))" and i1: "1 < length (node (graph ?m))"
    by (simp_all add: example_defs)
  have a: "op_type (node (graph ?m) ! 1) = ''AveragePool'' \<and>
           attribute (node (graph ?m) ! 1) = [kernel_shape_attr] @ ceil_mode_attr 1 # [ceil_mode_attr 0] \<and>
           (\<forall>x\<in>set [kernel_shape_attr]. attr_name x \<noteq> ''ceil_mode'') \<and>
           attr_name (ceil_mode_attr 1) = ''ceil_mode''"
    by (simp add: example_defs)
  have b: "op_type (node (graph ?m) ! 0) \<noteq> ''AveragePool''"
    by (simp add: example_defs)
  have s: "(\<Sum>n\<leftarrow>node (graph ?m). snd (patch_node n)) = 1"
    by (simp add: example_defs patch_node_def)
  from patch_node_removes_first [OF p i1, of "[kernel_shape_attr]" "ceil_mode_attr 1" "[ceil_mode_attr 0]"] a
  have 1: "node (graph (fst (patch_model ?m))) ! 1
             = (node (graph ?m) ! 1)\<lparr>attribute := [kernel_shape_attr] @ [ceil_mode_attr 0]\<rparr>"
    and 3: "snd (patch_model ?m) = (\<Sum>n\<leftarrow>node (graph ?m). snd (patch_node n))"
    by blast+
  from patch_node_removes_first [OF p i0, of "[]" "ceil_mode_attr 1" "[]"] b
  have 2: "node (graph (fst (patch_model ?m))) ! 0 = node (graph ?m) ! 0"
    by blast
  have e1: "(node (graph ?m) ! 1)\<lparr>attribute := [kernel_shape_attr] @ [ceil_mode_attr 0]\<rparr>
              = example_node ''pool1'' ''AveragePool'' [kernel_shape_attr, ceil_mode_attr 0]"
    and e0: "node (graph ?m) ! 0 = example_node ''conv1'' ''Conv'' [ceil_mode_attr 1]"
    by (simp_all add: example_model_def example_node_def)
  from 1 2 3 s e1 e0 show ?thesis by (simp only:)
qed

lemma patch_model_nothing:
  assumes "\<forall>n\<in>set (node (graph model)). op_type n = ''AveragePool'' \<longrightarrow>
           (\<forall>a\<in>set (attribute n). attr_name a \<noteq> ''ceil_mode'')"
  shows "patch_model model = (model, 0)"
proof -
  have "patch_node n = (n, 0)" if "n \<in> set (node (graph model))" for n
  proof (cases "op_type n = ''AveragePool''")
    case True
    with assms that show ?thesis by (simp add: patch_node_none)
  next
    case False
    then show ?thesis by (rule patch_node_other)
  qed
  then have "map (\<lambda>n. fst (patch_node n)) (node (graph model)) = map (\<lambda>n. n) (node (graph model))"
    and "map (\<lambda>n. snd (patch_node n)) (node (graph model)) = map (\<lambda>n. 0) (node (graph model))"
    by (simp_all cong: map_cong)
  then show ?thesis by (simp add: patch_model_eq)
qed

lemma patch_model_nodes_at_most_one:
  assumes "\<forall>n\<in>set (node (graph model)). op_type n = ''AveragePool'' \<longrightarrow>
           length (filter (\<lambda>a. attr_name a = ''ceil_mode'') (attribute n)) \<le> 1"
  shows "node (graph (fst (patch_model model))) =
           map (\<lambda>n. if op_type n = ''AveragePool''
                     then n\<lparr>attribute := filter (\<lambda>a. attr_name a \<noteq> ''ceil_mode'') (attribute n)\<rparr>
                     else n) (node (graph model))"
proof -
  have "fst (patch_node n) =
          (if op_type n = ''AveragePool''
           then n\<lparr>attribute := filter (\<lambda>a. attr_name a \<noteq> ''ceil_mode'') (attribute n)\<rparr> else n)"
    if "n \<in> set (node (graph model))" for n
    using that assms by (subst patch_node_at_most_one) auto
  then have "map (\<lambda>n. fst (patch_node n)) (node (graph model)) =
          map (\<lambda>n. if op_type n = ''AveragePool''
                     then n\<lparr>attribute := filter (\<lambda>a. attr_name a \<noteq> ''ceil_mode'') (attribute n)\<rparr>
                     else n) (node (graph model))"
    by (intro map_cong [OF refl])
  moreover have "node (graph (fst (patch_model model))) = map (\<lambda>n. fst (patch_node n)) (node (graph model))"
    by (simp add: patch_model_eq)
  ultimately show ?thesis by (simp only:)
qed

lemma patch_main_loaded:
  assumes "patch_args argv = (input_path, output_path, may_download)"
    and "fs input_path = Some b"
  shows "patch_main fetch parse serialize argv fs =
           (case patch_ceil_mode parse serialize fs input_path output_path of
              Inl e \<Rightarrow> Inl e | Inr (patch_count, fs2) \<Rightarrow> Inr fs2)"
  using assms by (simp add: patch_main_def)

text \<open>
  Claim C7. For every run whose input file parses to a model in which no \<open>AveragePool\<close>
  node carries a \<open>ceil_mode\<close> attribute, the loop leaves the model as it is,
  \<open>patch_ceil_mode\<close> returns count 0 without error and with the file system unchanged (no
  output file is written, whatever the serializer would do), and \<open>main\<close> ends without
  error.
\<close>

theorem patch_ceil_mode_nothing_to_patch:
  assumes "patch_args argv = (input_path, output_path, may_download)"
    and "fs input_path = Some b" and "parse b = Some model"
    and "\<forall>n\<in>set (node (graph model)). op_type n = ''AveragePool'' \<longrightarrow>
           (\<forall>a\<in>set (attribute n). attr_name a \<noteq> ''ceil_mode'')"
  shows "patch_model model = (model, 0) \<and>
         patch_ceil_mode parse serialize fs input_path output_path = Inr (0, fs) \<and>
         patch_main fetch parse serialize argv fs = Inr fs"
proof -
  from assms(4) have pm: "patch_model model = (model, 0)"
    by (rule patch_model_nothing)
  have load: "onnx_load parse fs input_path = Inr model"
    using assms(2,3) by (rule onnx_load_Inr)
  from pm have run: "patch_ceil_mode parse serialize fs input_path output_path = Inr (0, fs)"
    by (simp add: patch_ceil_mode_loaded [OF load])
  from run have "patch_main fetch parse serialize argv fs = Inr fs"
    by (simp add: patch_main_loaded [where fs = fs, OF assms(1,2)])
  with pm run show ?thesis by simp
qed

theorem patch_ceil_mode_nothing_to_patch_witness:
  "patch_ceil_mode Some (\<lambda>m. None)
     [''a.onnx'' \<mapsto> example_model
        [example_node ''pool1'' ''AveragePool'' [kernel_shape_attr],
         example_node ''pad1'' ''MaxPool'' [ceil_mode_attr 1]]]
     ''a.onnx'' ''a_patched.onnx''
   = Inr (0, [''a.onnx'' \<mapsto> example_model
        [example_node ''pool1'' ''AveragePool'' [kernel_shape_attr],
         example_node ''pad1'' ''MaxPool'' [ceil_mode_attr 1]]])
   \<and> patch_main (\<lambda>url. None) Some (\<lambda>m. None) [''patch_det10g.py'', ''a.onnx'']
     [''a.onnx'' \<mapsto> example_model
        [example_node ''pool1'' ''AveragePool'' [kernel_shape_attr],
         example_node ''pad1'' ''MaxPool'' [ceil_mode_attr 1]]]
   = Inr [''a.onnx'' \<mapsto> example_model
        [example_node ''pool1'' ''AveragePool'' [kernel_shape_attr],
         example_node ''pad1'' ''MaxPool'' [ceil_mode_attr 1]]]"
proof -
  let ?m = "example_model
        [example_node ''pool1'' ''AveragePool'' [kernel_shape_attr],
         example_node ''pad1'' ''MaxPool'' [ceil_mode_attr 1]]"
  have a: "patch_args [''patch_det10g.py'', ''a.onnx''] = (''a.onnx'', ''a_patched.onnx'', False)"
    by (simp add: patch_args_def)
  have f: "[''a.onnx'' \<mapsto> ?m] ''a.onnx'' = Some ?m" by simp
  have p: "Some ?m = Some ?m" by simp
  have n: "\<forall>n\<in>set (node (graph ?m)). op_type n = ''AveragePool'' \<longrightarrow>
           (\<forall>a\<in>set (attribute n). attr_name a \<noteq> ''ceil_mode'')"
    by (simp add: example_defs)
  from patch_ceil_mode_nothing_to_patch [where fs = "[''a.onnx'' \<mapsto> ?m]" and parse = Some
      and serialize = "\<lambda>m. None" and fetch = "\<lambda>url. None", OF a f p n]
  show ?thesis by simp
qed

text \<open>
  Claim C6 says that a run on the output of a previous run always has count 0 and
  produces a file identical to its input. With two \<open>ceil_mode\<close> attributes on one node,
  the first run removes one and the run on its output removes the other: count 1, and an
  output that differs from its input. The third run has count 0, and writes no file at
  all: nothing is at its output path.
\<close>

theorem patch_ceil_mode_second_run_counterexample:
  "patch_ceil_mode Some Some
     [''a.onnx'' \<mapsto> example_model [example_node ''pool1'' ''AveragePool'' [ceil_mode_attr 1, ceil_mode_attr 1]]]
     ''a.onnx'' ''b.onnx''
   = Inr (1,
     [''a.onnx'' \<mapsto> example_model [example_node ''pool1'' ''AveragePool'' [ceil_mode_attr 1, ceil_mode_attr 1]],
      ''b.onnx'' \<mapsto> example_model [example_node ''pool1'' ''AveragePool'' [ceil_mode_attr 1]]])
   \<and>
   patch_ceil_mode Some Some
     [''a.onnx'' \<mapsto> example_model [example_node ''pool1'' ''AveragePool'' [ceil_mode_attr 1, ceil_mode_attr 1]],
      ''b.onnx'' \<mapsto> example_model [example_node ''pool1'' ''AveragePool'' [ceil_mode_attr 1]]]
     ''b.onnx'' ''c.onnx''
   = Inr (1,
     [''a.onnx'' \<mapsto> example_model [example_node ''pool1'' ''AveragePool'' [ceil_mode_attr 1, ceil_mode_attr 1]],
      ''b.onnx'' \<mapsto> example_model [example_node ''pool1'' ''AveragePool'' [ceil_mode_attr 1]],
      ''c.onnx'' \<mapsto> example_model [example_node ''pool1'' ''AveragePool'' []]])
   \<and>
   patch_ceil_mode Some Some
     [''a.onnx'' \<mapsto> example_model [example_node ''pool1'' ''AveragePool'' [ceil_mode_attr 1, ceil_mode_attr 1]],
      ''b.onnx'' \<mapsto> example_model [example_node ''pool1'' ''AveragePool'' [ceil_mode_attr 1]],
      ''c.onnx'' \<mapsto> example_model [example_node ''pool1'' ''AveragePool'' []]]
     ''c.onnx'' ''d.onnx''
   = Inr (0,
     [''a.onnx'' \<mapsto> example_model [example_node ''pool1'' ''AveragePool'' [ceil_mode_attr 1, ceil_mode_attr 1]],
      ''b.onnx'' \<mapsto> example_model [example_node ''pool1'' ''AveragePool'' [ceil_mode_attr 1]],
      ''c.onnx'' \<mapsto> example_model [example_node ''pool1'' ''AveragePool'' []]])
   \<and>
     [''a.onnx'' \<mapsto> example_model [example_node ''pool1'' ''AveragePool'' [ceil_mode_attr 1, ceil_mode_attr 1]],
      ''b.onnx'' \<mapsto> example_model [example_node ''pool1'' ''AveragePool'' [ceil_mode_attr 1]],
      ''c.onnx'' \<mapsto> example_model [example_node ''pool1'' ''AveragePool'' []]] ''d.onnx'' = None"
  by (simp add: patch_ceil_mode_def onnx_load_def patch_model_def patch_node_def del_at_def
        example_defs)

text \<open>
  Claim C6, amended. Assume that parsing a serialized model gives that model back. For
  every loaded model in which no \<open>AveragePool\<close> node carries more than one \<open>ceil_mode\<close>
  attribute and on which a first run patched at least one node (so that it wrote its
  output), a run of the patcher on that output loads the patched model, leaves it as it
  is, returns count 0 and writes no file: the file system, and in it the first run's
  output, is unchanged.
\<close>

theorem patch_ceil_mode_second_run:
  assumes "\<forall>m b. serialize m = Some b \<longrightarrow> parse b = Some m"
    and "onnx_load parse fs model_path = Inr model"
    and "\<forall>n\<in>set (node (graph model)). op_type n = ''AveragePool'' \<longrightarrow>
           length (filter (\<lambda>a. attr_name a = ''ceil_mode'') (attribute n)) \<le> 1"
    and "patch_ceil_mode parse serialize fs model_path output_path = Inr (patch_count, fs1)"
    and "0 < patch_count"
  shows "onnx_load parse fs1 output_path = Inr (fst (patch_model model)) \<and>
         patch_model (fst (patch_model model)) = (fst (patch_model model), 0) \<and>
         patch_ceil_mode parse serialize fs1 output_path other_path = Inr (0, fs1)"
proof -
  from assms(4,5) patch_ceil_mode_loaded [OF assms(2), of serialize output_path]
  obtain b where b: "serialize (fst (patch_model model)) = Some b" "fs1 = fs(output_path \<mapsto> b)"
    by (auto split: if_splits option.splits)
  with assms(1) have "parse b = Some (fst (patch_model model))" by blast
  with b(2) have load: "onnx_load parse fs1 output_path = Inr (fst (patch_model model))"
    by (simp add: onnx_load_def)
  have "\<forall>n\<in>set (node (graph (fst (patch_model model)))). op_type n = ''AveragePool'' \<longrightarrow>
           (\<forall>a\<in>set (attribute n). attr_name a \<noteq> ''ceil_mode'')"
    unfolding patch_model_nodes_at_most_one [OF assms(3)] by auto
  then have idem: "patch_model (fst (patch_model model)) = (fst (patch_model model), 0)"
    by (rule patch_model_nothing)
  then have "patch_ceil_mode parse serialize fs1 output_path other_path = Inr (0, fs1)"
    by (simp add: patch_ceil_mode_loaded [OF load])
  with load idem show ?thesis by simp
qed

theorem patch_ceil_mode_second_run_witness:
  "patch_ceil_mode Some Some
     [''a.onnx'' \<mapsto> example_model [example_node ''pool1'' ''AveragePool'' [kernel_shape_attr, ceil_mode_attr 1]],
      ''b.onnx'' \<mapsto> example_model [example_node ''pool1'' ''AveragePool'' [kernel_shape_attr]]]
     ''b.onnx'' ''c.onnx''
   = Inr (0,
     [''a.onnx'' \<mapsto> example_model [example_node ''pool1'' ''AveragePool'' [kernel_shape_attr, ceil_mode_attr 1]],
      ''b.onnx'' \<mapsto> example_model [example_node ''pool1'' ''AveragePool'' [kernel_shape_attr]]])"
proof -
  let ?m = "example_model [example_node ''pool1'' ''AveragePool'' [kernel_shape_attr, ceil_mode_attr 1]]"
  let ?m' = "example_model [example_node ''pool1'' ''AveragePool'' [kernel_shape_attr]]"
  have law: "\<forall>(m :: unit model_proto) b. Some m = Some b \<longrightarrow> Some b = Some m" by simp
  have load: "onnx_load Some [''a.onnx'' \<mapsto> ?m] ''a.onnx'' = Inr ?m"
    by (simp add: onnx_load_def)
  have one: "\<forall>n\<in>set (node (graph ?m)). op_type n = ''AveragePool'' \<longrightarrow>
               length (filter (\<lambda>a. attr_name a = ''ceil_mode'') (attribute n)) \<le> 1"
    by (simp add: example_defs)
  have run: "patch_ceil_mode Some Some [''a.onnx'' \<mapsto> ?m] ''a.onnx'' ''b.onnx''
               = Inr (1, [''a.onnx'' \<mapsto> ?m, ''b.onnx'' \<mapsto> ?m'])"
    by (simp add: patch_ceil_mode_def onnx_load_def patch_model_def patch_node_def del_at_def
          example_defs)
  have pos: "0 < (1 :: nat)" by simp
  from patch_ceil_mode_second_run [where parse = Some and serialize = Some
      and fs = "[''a.onnx'' \<mapsto> ?m]" and other_path = "''c.onnx''", OF law load one run pos]
  show ?thesis by simp
qed

lemma patch_node_frame:
  "filter (\<lambda>a. attr_name a \<noteq> ''ceil_mode'') (attribute (fst (patch_node n))) =
     filter (\<lambda>a. attr_name a \<noteq> ''ceil_mode'') (attribute n) \<and>
   (attribute (fst (patch_node n)) = attribute n \<or>
    op_type n = ''AveragePool'' \<and>
    (\<exists>pre a post. attribute n = pre @ a # post \<and> (\<forall>x\<in>set pre. attr_name x \<noteq> ''ceil_mode'') \<and>
       attr_name a = ''ceil_mode'' \<and> attribute (fst (patch_node n)) = pre @ post)) \<and>
   fst (patch_node n) = n\<lparr>attribute := attribute (fst (patch_node n))\<rparr>"
proof -
  consider
    (same) "patch_node n = (n, 0)"
  | (del) pre a post where "op_type n = ''AveragePool''" "attribute n = pre @ a # post"
      "\<forall>x\<in>set pre. attr_name x \<noteq> ''ceil_mode''" "attr_name a = ''ceil_mode''"
      "patch_node n = (n\<lparr>attribute := pre @ post\<rparr>, 1)"
    using patch_node_cases [of n] by blast
  then show ?thesis
  proof cases
    case same
    then show ?thesis by simp
  next
    case del
    then show ?thesis by auto
  qed
qed

text \<open>
  Claim C9. Assume that parsing a serialized model gives that model back. For every
  loaded model, the serialization \<open>b\<close> of the patched model (which is what
  \<open>patch_ceil_mode\<close> writes to the output path when the count is positive) parses to a
  model with the same number of nodes and the same initializers as before patching, in
  which every node has, apart from its attributes, the fields it had, the same attributes
  other than \<open>ceil_mode\<close> in the same order, and an attribute list that is either the old
  one or, on an \<open>AveragePool\<close> node, the old one without its first \<open>ceil_mode\<close> attribute.
\<close>

theorem patch_ceil_mode_round_trip:
  assumes "\<forall>m b. serialize m = Some b \<longrightarrow> parse b = Some m"
    and "onnx_load parse fs model_path = Inr model"
    and "serialize (fst (patch_model model)) = Some b"
  shows "patch_ceil_mode parse serialize fs model_path output_path =
           (if 0 < snd (patch_model model)
            then Inr (snd (patch_model model), fs(output_path \<mapsto> b)) else Inr (0, fs)) \<and>
         (\<exists>model2. parse b = Some model2 \<and>
            length (node (graph model2)) = length (node (graph model)) \<and>
            (\<forall>i<length (node (graph model)).
               filter (\<lambda>a. attr_name a \<noteq> ''ceil_mode'') (attribute (node (graph model2) ! i)) =
                 filter (\<lambda>a. attr_name a \<noteq> ''ceil_mode'') (attribute (node (graph model) ! i)) \<and>
               (attribute (node (graph model2) ! i) = attribute (node (graph model) ! i) \<or>
                op_type (node (graph model) ! i) = ''AveragePool'' \<and>
                (\<exists>pre a post. attribute (node (graph model) ! i) = pre @ a # post \<and>
                   (\<forall>x\<in>set pre. attr_name x \<noteq> ''ceil_mode'') \<and> attr_name a = ''ceil_mode'' \<and>
                   attribute (node (graph model2) ! i) = pre @ post)) \<and>
               node (graph model2) ! i =
                 (node (graph model) ! i)\<lparr>attribute := attribute (node (graph model2) ! i)\<rparr>) \<and>
            initializer (graph model2) = initializer (graph model))"
proof -
  let ?m' = "fst (patch_model model)"
  have run: "patch_ceil_mode parse serialize fs model_path output_path =
           (if 0 < snd (patch_model model)
            then Inr (snd (patch_model model), fs(output_path \<mapsto> b)) else Inr (0, fs))"
    using assms(3) by (simp add: patch_ceil_mode_loaded [OF assms(2)])
  from assms(1,3) have p: "parse b = Some ?m'" by blast
  have n: "node (graph ?m') = map (\<lambda>n. fst (patch_node n)) (node (graph model))"
    and ini: "initializer (graph ?m') = initializer (graph model)"
    by (simp_all add: patch_model_eq)
  from n have l: "length (node (graph ?m')) = length (node (graph model))" by simp
  have f: "filter (\<lambda>a. attr_name a \<noteq> ''ceil_mode'') (attribute (node (graph ?m') ! i)) =
                 filter (\<lambda>a. attr_name a \<noteq> ''ceil_mode'') (attribute (node (graph model) ! i)) \<and>
               (attribute (node (graph ?m') ! i) = attribute (node (graph model) ! i) \<or>
                op_type (node (graph model) ! i) = ''AveragePool'' \<and>
                (\<exists>pre a post. attribute (node (graph model) ! i) = pre @ a # post \<and>
                   (\<forall>x\<in>set pre. attr_name x \<noteq> ''ceil_mode'') \<and> attr_name a = ''ceil_mode'' \<and>
                   attribute (node (graph ?m') ! i) = pre @ post)) \<and>
               node (graph ?m') ! i =
                 (node (graph model) ! i)\<lparr>attribute := attribute (node (graph ?m') ! i)\<rparr>"
    if "i < length (node (graph model))" for i
  proof -
    from that n have "node (graph ?m') ! i = fst (patch_node (node (graph model) ! i))" by simp
    with patch_node_frame [of "node (graph model) ! i"] show ?thesis by (simp only:)
  qed
  from p l f ini have "\<exists>model2. parse b = Some model2 \<and>
            length (node (graph model2)) = length (node (graph model)) \<and>
            (\<forall>i<length (node (graph model)).
               filter (\<lambda>a. attr_name a \<noteq> ''ceil_mode'') (attribute (node (graph model2) ! i)) =
                 filter (\<lambda>a. attr_name a \<noteq> ''ceil_mode'') (attribute (node (graph model) ! i)) \<and>
               (attribute (node (graph model2) ! i) = attribute (node (graph model) ! i) \<or>
                op_type (node (graph model) ! i) = ''AveragePool'' \<and>
                (\<exists>pre a post. attribute (node (graph model) ! i) = pre @ a # post \<and>
                   (\<forall>x\<in>set pre. attr_name x \<noteq> ''ceil_mode'') \<and> attr_name a = ''ceil_mode'' \<and>
                   attribute (node (graph model2) ! i) = pre @ post)) \<and>
               node (graph model2) ! i =
                 (node (graph model) ! i)\<lparr>attribute := attribute (node (graph model2) ! i)\<rparr>) \<and>
            initializer (graph model2) = initializer (graph model)"
    by (intro exI [of _ ?m']) blast
  with run show ?thesis by (rule conjI)
qed

theorem patch_ceil_mode_round_trip_witness:
  "patch_ceil_mode Some Some
     [''a.onnx'' \<mapsto> example_model
        [example_node ''conv1'' ''Conv'' [kernel_shape_attr],
         example_node ''pool1'' ''AveragePool'' [kernel_shape_attr, ceil_mode_attr 1]]]
     ''a.onnx'' ''b.onnx''
   = Inr (1,
     [''a.onnx'' \<mapsto> example_model
        [example_node ''conv1'' ''Conv'' [kernel_shape_attr],
         example_node ''pool1'' ''AveragePool'' [kernel_shape_attr, ceil_mode_attr 1]],
      ''b.onnx'' \<mapsto> example_model
        [example_node ''conv1'' ''Conv'' [kernel_shape_attr],
         example_node ''pool1'' ''AveragePool'' [kernel_shape_attr]]])"
proof -
  let ?m = "example_model
        [example_node ''conv1'' ''Conv'' [kernel_shape_attr],
         example_node ''pool1'' ''AveragePool'' [kernel_shape_attr, ceil_mode_attr 1]]"
  let ?m' = "example_model
        [example_node ''conv1'' ''Conv'' [kernel_shape_attr],
         example_node ''pool1'' ''AveragePool'' [kernel_shape_attr]]"
  have law: "\<forall>(m :: unit model_proto) b. Some m = Some b \<longrightarrow> Some b = Some m" by simp
  have load: "onnx_load Some [''a.onnx'' \<mapsto> ?m] ''a.onnx'' = Inr ?m"
    by (simp add: onnx_load_def)
  have pm: "patch_model ?m = (?m', 1)"
    by (simp add: patch_model_def patch_node_def del_at_def example_defs)
  then have ser: "Some (fst (patch_model ?m)) = Some ?m'" by simp
  from patch_ceil_mode_round_trip [where parse = Some and serialize = Some
      and fs = "[''a.onnx'' \<mapsto> ?m]" and output_path = "''b.onnx''", OF law load ser] pm
  show ?thesis by simp
qed

lemma str_replace_absent:
  "old \<noteq> [] \<Longrightarrow> \<not> str_in old s \<Longrightarrow> str_replace old new s = s"
  by (induction s) auto

lemma str_replace_onnx_suffix:
  "CHR ''.'' \<notin> set stem \<Longrightarrow> str_replace ''.onnx'' new (stem @ ''.onnx'') = stem @ new"
  by (induction stem) auto

text \<open>
  Claim C8 says that with one argument both tools use a fixed output filename,
  independent of the input path. The patcher computes its output path from the input
  path (line 90): \<open>a.onnx\<close> and \<open>b.onnx\<close> give different output paths.
\<close>

theorem one_argument_paths_counterexample:
  "patch_args [''patch_det10g.py'', ''a.onnx''] = (''a.onnx'', ''a_patched.onnx'', False) \<and>
   patch_args [''patch_det10g.py'', ''b.onnx''] = (''b.onnx'', ''b_patched.onnx'', False) \<and>
   snd (patch_args [''patch_det10g.py'', ''a.onnx'']) \<noteq> snd (patch_args [''patch_det10g.py'', ''b.onnx''])"
  by (simp add: patch_args_def)

text \<open>
  Claim C8, amended. When exactly one command-line argument is given, both tools take it
  as the input path and neither takes the download branch. The extractor uses the fixed
  output filename \<open>emap.bin\<close>, whatever the input path. The patcher's output path is the
  input path with every occurrence of \<open>.onnx\<close> replaced by \<open>_patched.onnx\<close>: for a stem
  without a dot, \<open>stem.onnx\<close> gives \<open>stem_patched.onnx\<close>, and an input path in which
  \<open>.onnx\<close> does not occur gives the input path itself.
\<close>

theorem one_argument_paths:
  assumes "length argv = 2"
  shows "extract_args argv = (argv ! 1, ''emap.bin'', False) \<and>
         patch_args argv = (argv ! 1, str_replace ''.onnx'' ''_patched.onnx'' (argv ! 1), False) \<and>
         (CHR ''.'' \<notin> set stem \<and> argv ! 1 = stem @ ''.onnx'' \<longrightarrow>
            patch_args argv = (argv ! 1, stem @ ''_patched.onnx'', False)) \<and>
         (\<not> str_in ''.onnx'' (argv ! 1) \<longrightarrow> patch_args argv = (argv ! 1, argv ! 1, False))"
  using assms str_replace_onnx_suffix [of stem "''_patched.onnx''"]
    str_replace_absent [of "''.onnx''" "argv ! 1" "''_patched.onnx''"]
  by (auto simp: extract_args_def patch_args_def Let_def)

theorem one_argument_paths_witness:
  "extract_args [''extract_emap.py'', ''models/inswapper.onnx''] = (''models/inswapper.onnx'', ''emap.bin'', False) \<and>
   patch_args [''patch_det10g.py'', ''models/det.onnx''] = (''models/det.onnx'', ''models/det_patched.onnx'', False) \<and>
   patch_args [''patch_det10g.py'', ''det.bin''] = (''det.bin'', ''det.bin'', False)"
proof -
  have l: "length [''extract_emap.py'', ''models/inswapper.onnx''] = 2"
    "length [''patch_det10g.py'', ''models/det.onnx''] = 2"
    "length [''patch_det10g.py'', ''det.bin''] = 2" by simp_all
  have s: "CHR ''.'' \<notin> set ''models/det'' \<and> [''patch_det10g.py'', ''models/det.onnx''] ! 1 = ''models/det'' @ ''.onnx''"
    by simp
  have n: "\<not> str_in ''.onnx'' ([''patch_det10g.py'', ''det.bin''] ! 1)" by simp
  from one_argument_paths [OF l(1), of "[]"] one_argument_paths [OF l(2), of "''models/det''"] s
    one_argument_paths [OF l(3), of "[]"] n
  show ?thesis by simp
qed

end
